theory Spec2Isabelle
  imports Complex_Main
begin

section \<open>JavaScript strings and numbers\<close>

text \<open>
  The analysed program is the React component \<open>PasswordSecurityApp\<close>. A JavaScript string
  is modelled as a list of 8-bit characters, read as the code units U+0000 to U+00FF. A
  JavaScript number is modelled as a real: IEEE doubles are idealised as exact numbers.
  Only \<open>formatTime\<close> tests its argument for NaN and the infinities, and its argument has
  a datatype of its own.
\<close>

definition charCode :: "char \<Rightarrow> nat" where
  "charCode c = of_char c"

definition isLower :: "char \<Rightarrow> bool" where
  \<comment> \<open>the character class \<open>[a-z]\<close>\<close>
  "isLower c = (97 \<le> charCode c \<and> charCode c \<le> 122)"

definition isUpper :: "char \<Rightarrow> bool" where
  \<comment> \<open>the character class \<open>[A-Z]\<close>\<close>
  "isUpper c = (65 \<le> charCode c \<and> charCode c \<le> 90)"

definition isDigit :: "char \<Rightarrow> bool" where
  \<comment> \<open>the character classes \<open>[0-9]\<close> and \<open>\d\<close>\<close>
  "isDigit c = (48 \<le> charCode c \<and> charCode c \<le> 57)"

definition isLetter :: "char \<Rightarrow> bool" where
  \<comment> \<open>the character class \<open>[a-z]\<close> under the flag \<open>i\<close>, and \<open>[a-zA-Z]\<close>\<close>
  "isLetter c = (isLower c \<or> isUpper c)"

definition isSymbol :: "char \<Rightarrow> bool" where
  \<comment> \<open>the character classes \<open>[^a-zA-Z0-9]\<close> and \<open>[\W_]\<close>\<close>
  "isSymbol c = (\<not> isLower c \<and> \<not> isUpper c \<and> \<not> isDigit c)"

definition strIndex :: "string \<Rightarrow> int \<Rightarrow> string" where
  \<comment> \<open>what \<open>result += s[i]\<close> appends: the character, or the text of \<open>undefined\<close> out of range\<close>
  "strIndex s i = (if 0 \<le> i \<and> i < int (length s) then [s ! nat i] else ''undefined'')"

definition digitChar :: "nat \<Rightarrow> char" where
  "digitChar d = ''0123456789'' ! d"

fun showNat :: "nat \<Rightarrow> string" where
  "showNat n = (if n < 10 then [digitChar n] else showNat (n div 10) @ [digitChar (n mod 10)])"

declare showNat.simps [simp del]

definition showInt :: "int \<Rightarrow> string" where
  \<comment> \<open>the decimal text of an integral number, as string concatenation produces it\<close>
  "showInt i = (if i < 0 then ''-'' @ showNat (nat (- i)) else showNat (nat i))"

definition toLowerChar :: "char \<Rightarrow> char" where
  \<comment> \<open>\<open>toLowerCase\<close> on one code unit: the letters \<open>A\<close> to \<open>Z\<close> and the capital letters
      U+00C0 to U+00DE (U+00D7 is the multiplication sign) move up by 32, that is, bit 5
      of the code, which is clear in all of them, is set\<close>
  "toLowerChar c =
     (let n = charCode c
      in if (65 \<le> n \<and> n \<le> 90) \<or> (192 \<le> n \<and> n \<le> 222 \<and> n \<noteq> 215)
         then (case c of Char b0 b1 b2 b3 b4 b5 b6 b7 \<Rightarrow> Char b0 b1 b2 b3 b4 True b6 b7)
         else c)"

definition toLowerCase :: "string \<Rightarrow> string" where
  "toLowerCase s = map toLowerChar s"

definition toUpperChar :: "char \<Rightarrow> char" where
  \<comment> \<open>\<open>toUpperCase\<close> on one code unit; the code applies it to table entries only, which
      are ASCII: the letters \<open>a\<close> to \<open>z\<close> move down by 32 (bit 5 of the code is cleared)\<close>
  "toUpperChar c =
     (if isLower c
      then (case c of Char b0 b1 b2 b3 b4 b5 b6 b7 \<Rightarrow> Char b0 b1 b2 b3 b4 False b6 b7)
      else c)"

definition startsWith :: "string \<Rightarrow> string \<Rightarrow> bool" where
  \<comment> \<open>\<open>s.startsWith(p)\<close>\<close>
  "startsWith s p = (take (length p) s = p)"

fun includesStr :: "string \<Rightarrow> string \<Rightarrow> bool" where
  \<comment> \<open>\<open>s.includes(p)\<close>: \<open>p\<close> occurs in \<open>s\<close> as a substring\<close>
  "includesStr [] p = (p = [])"
| "includesStr (c # s) p = (startsWith (c # s) p \<or> includesStr s p)"

definition jsRound :: "real \<Rightarrow> int" where
  \<comment> \<open>\<open>Math.round\<close>: the nearest integer, a half goes up\<close>
  "jsRound x = \<lfloor>x + 1 / 2\<rfloor>"

section \<open>The regular expressions of the component\<close>

text \<open>
  Each regular expression of the source is a predicate on strings. The classes
  \<open>[a-z]\<close> with the flag \<open>i\<close>, \<open>[0-9]\<close> and \<open>[\W_]\<close> are pairwise disjoint, so a pattern
  made of one run of each has a single way to match.
\<close>

definition hasUpper :: "string \<Rightarrow> bool" where
  "hasUpper pwd = list_ex isUpper pwd"

definition hasLower :: "string \<Rightarrow> bool" where
  "hasLower pwd = list_ex isLower pwd"

definition hasNumber :: "string \<Rightarrow> bool" where
  "hasNumber pwd = list_ex isDigit pwd"

definition hasSymbol :: "string \<Rightarrow> bool" where
  "hasSymbol pwd = list_ex isSymbol pwd"

definition allOf :: "(char \<Rightarrow> bool) \<Rightarrow> string \<Rightarrow> bool" where
  \<comment> \<open>\<open>/^[class]+$/\<close>\<close>
  "allOf P s = (s \<noteq> [] \<and> list_all P s)"

definition lettersThenDigits :: "nat \<Rightarrow> string \<Rightarrow> bool" where
  \<comment> \<open>\<open>/^[a-z]{m,}[0-9]+$/i\<close>; with \<open>m = 1\<close> also \<open>/^[a-z]+[0-9]+$/i\<close> and
      \<open>/^[a-zA-Z]+\d+$/\<close>\<close>
  "lettersThenDigits m s =
     (let word = takeWhile isLetter s; number = dropWhile isLetter s
      in m \<le> length word \<and> number \<noteq> [] \<and> list_all isDigit number)"

definition lettersThenFewDigits :: "string \<Rightarrow> bool" where
  \<comment> \<open>\<open>/^[a-z]+[0-9]{1,4}$/i\<close>\<close>
  "lettersThenFewDigits s = (lettersThenDigits 1 s \<and> length (dropWhile isLetter s) \<le> 4)"

definition stripTrailingDigits :: "string \<Rightarrow> string" where
  \<comment> \<open>\<open>s.replace(/[0-9]+$/, '')\<close> and \<open>s.replace(/\d+$/, '')\<close>\<close>
  "stripTrailingDigits s = rev (dropWhile isDigit (rev s))"

definition wordSymbolNumber :: "string \<Rightarrow> bool" where
  \<comment> \<open>\<open>/^[a-z]+[\W_]+[0-9]+$/i\<close>\<close>
  "wordSymbolNumber s =
     (let word = takeWhile isLetter s; rest = dropWhile isLetter s;
          symbols = takeWhile isSymbol rest; number = dropWhile isSymbol rest
      in word \<noteq> [] \<and> symbols \<noteq> [] \<and> number \<noteq> [] \<and> list_all isDigit number)"

definition capitalWordNumberSymbol :: "string \<Rightarrow> bool" where
  \<comment> \<open>\<open>/^[A-Z][a-z]+\d+[\W_]+$/\<close>\<close>
  "capitalWordNumberSymbol s =
     (case s of
        [] \<Rightarrow> False
      | c # t \<Rightarrow>
          (let word = takeWhile isLower t; rest = dropWhile isLower t;
               number = takeWhile isDigit rest; symbols = dropWhile isDigit rest
           in isUpper c \<and> word \<noteq> [] \<and> number \<noteq> [] \<and> symbols \<noteq> [] \<and>
              list_all isSymbol symbols))"

definition isYear :: "string \<Rightarrow> bool" where
  \<comment> \<open>\<open>/^(19|20)\d{2}$/\<close>\<close>
  "isYear s =
     (length s = 4 \<and> (take 2 s = ''19'' \<or> take 2 s = ''20'') \<and> list_all isDigit (drop 2 s))"

definition isDateSeparator :: "char \<Rightarrow> bool" where
  \<comment> \<open>the class \<open>[/-_.]\<close>: the range from \<open>/\<close> (47) to \<open>_\<close> (95), and the dot (46)\<close>
  "isDateSeparator c = ((47 \<le> charCode c \<and> charCode c \<le> 95) \<or> charCode c = 46)"

definition dateSplit :: "string \<Rightarrow> nat \<Rightarrow> nat \<Rightarrow> nat \<Rightarrow> bool" where
  \<comment> \<open>one way for \<open>/^\d{1,2}[/-_.]\d{1,2}[/-_.](19|20)?\d{2}$/\<close> to match: \<open>a\<close> and \<open>b\<close>
      digits in the first two groups, and a century of \<open>y\<close> characters (none or two)\<close>
  "dateSplit s a b y =
     (length s = a + 1 + b + 1 + y + 2 \<and>
      list_all isDigit (take a s) \<and>
      isDateSeparator (s ! a) \<and>
      list_all isDigit (take b (drop (a + 1) s)) \<and>
      isDateSeparator (s ! (a + 1 + b)) \<and>
      (y = 0 \<or> take 2 (drop (a + b + 2) s) = ''19'' \<or> take 2 (drop (a + b + 2) s) = ''20'') \<and>
      list_all isDigit (drop (a + b + 2 + y) s))"

definition isDate :: "string \<Rightarrow> bool" where
  \<comment> \<open>the separator class contains the digits, so the expression can match in several
      ways; it matches when one of the eight splits does\<close>
  "isDate s =
     list_ex (\<lambda>a. list_ex (\<lambda>b. list_ex (\<lambda>y. dateSplit s a b y) [0, 2]) [1, 2]) [1, 2]"

fun pairsOf :: "(char \<Rightarrow> bool) \<Rightarrow> (char \<Rightarrow> bool) \<Rightarrow> string \<Rightarrow> bool" where
  "pairsOf P Q [] = True"
| "pairsOf P Q [c] = False"
| "pairsOf P Q (c # d # s) = (P c \<and> Q d \<and> pairsOf P Q s)"

definition alternating :: "string \<Rightarrow> bool" where
  \<comment> \<open>\<open>/^(?:(?:[a-z][0-9])+|(?:[0-9][a-z])+)$/i\<close>\<close>
  "alternating s = (s \<noteq> [] \<and> (pairsOf isLetter isDigit s \<or> pairsOf isDigit isLetter s))"

fun matchClasses :: "string list \<Rightarrow> string \<Rightarrow> bool" where
  \<comment> \<open>a sequence of character classes, each given by its members, matches a prefix\<close>
  "matchClasses [] s = True"
| "matchClasses (cl # cls) [] = False"
| "matchClasses (cl # cls) (c # s) = (c \<in> set cl \<and> matchClasses cls s)"

fun searchClasses :: "string list \<Rightarrow> string \<Rightarrow> bool" where
  \<comment> \<open>the same sequence matches somewhere\<close>
  "searchClasses cls [] = matchClasses cls []"
| "searchClasses cls (c # s) = (matchClasses cls (c # s) \<or> searchClasses cls s)"

definition leetCommon :: "string \<Rightarrow> bool" where
  \<comment> \<open>\<open>/^[a@][d][m][i1][n]|^[p][a@][s$][s$][w][0o][r][d]|^[t][e3][s$][t]/\<close>\<close>
  "leetCommon s =
     (matchClasses [''a@'', ''d'', ''m'', ''i1'', ''n''] s \<or>
      matchClasses [''p'', ''a@'', ''s$'', ''s$'', ''w'', ''0o'', ''r'', ''d''] s \<or>
      matchClasses [''t'', ''e3'', ''s$'', ''t''] s)"

definition leetSpeak :: "string \<Rightarrow> bool" where
  \<comment> \<open>\<open>/[a@][s$][e3][t+]/i\<close> or \<open>/[p][a@][s$][s$][w][0o][r][d]/i\<close>; under the flag \<open>i\<close> a
      class of ASCII members matches a character when it holds its lowercase form\<close>
  "leetSpeak pwd =
     (searchClasses [''a@'', ''s$'', ''e3'', ''t+''] (toLowerCase pwd) \<or>
      searchClasses [''p'', ''a@'', ''s$'', ''s$'', ''w'', ''0o'', ''r'', ''d'']
        (toLowerCase pwd))"

fun runs :: "string \<Rightarrow> string list" where
  \<comment> \<open>the maximal runs of one character, in order\<close>
  "runs [] = []"
| "runs (c # s) =
     (case runs s of
        [] \<Rightarrow> [[c]]
      | r # rs \<Rightarrow> if hd r = c then (c # r) # rs else [c] # r # rs)"

definition isLineTerminator :: "char \<Rightarrow> bool" where
  \<comment> \<open>the characters that \<open>.\<close> does not match: line feed and carriage return\<close>
  "isLineTerminator c = (charCode c = 10 \<or> charCode c = 13)"

definition repeatMatches :: "nat \<Rightarrow> string \<Rightarrow> string list" where
  \<comment> \<open>\<open>s.match(/(.)\1+/g)\<close> for \<open>k = 2\<close> and \<open>s.match(/(.)\1{2,}/g)\<close> for \<open>k = 3\<close>: the
      matches are the maximal runs of at least \<open>k\<close> equal characters; the empty list
      stands for \<open>null\<close>\<close>
  "repeatMatches k s = filter (\<lambda>r. k \<le> length r \<and> \<not> isLineTerminator (hd r)) (runs s)"

fun joinWith :: "string \<Rightarrow> string list \<Rightarrow> string" where
  \<comment> \<open>\<open>xs.join(sep)\<close>\<close>
  "joinWith sep [] = []"
| "joinWith sep [x] = x"
| "joinWith sep (x # y # xs) = x @ sep @ joinWith sep (y # xs)"

section \<open>The generator\<close>

record generatorSettings =
  lengthSetting :: nat
  includeUppercase :: bool
  includeLowercase :: bool
  includeNumbers :: bool
  includeSymbols :: bool
  excludeSimilar :: bool
  pronounceable :: bool

text \<open>
  \<open>Math.random\<close> is a source of numbers: \<open>rnd k\<close> is what the call number \<open>k\<close> made by one
  run of \<open>generatePassword\<close> returns. The platform promises \<open>0 \<le> rnd k < 1\<close>.
\<close>

definition unitInterval :: "(nat \<Rightarrow> real) \<Rightarrow> bool" where
  "unitInterval rnd = (\<forall>k. 0 \<le> rnd k \<and> rnd k < 1)"

definition randomIndex :: "real \<Rightarrow> nat \<Rightarrow> int" where
  \<comment> \<open>\<open>Math.floor(Math.random() * n)\<close>\<close>
  "randomIndex r n = \<lfloor>r * real n\<rfloor>"

definition consonants :: string where
  "consonants = ''bcdfghjklmnpqrstvwxz''"

definition vowels :: string where
  "vowels = ''aeiou''"

definition pronounceableSymbols :: string where
  "pronounceableSymbols = ''!@#$%''"

definition pronounceableStep :: "(nat \<Rightarrow> real) \<Rightarrow> string \<Rightarrow> nat \<Rightarrow> string" where
  \<comment> \<open>the body of the loop in pronounceable mode, at counter \<open>i\<close>\<close>
  "pronounceableStep rnd result i =
     (if i mod 2 = 0
      then result @ strIndex consonants (randomIndex (rnd i) (length consonants))
      else result @ strIndex vowels (randomIndex (rnd i) (length vowels)))"

definition pronounceableLoop :: "(nat \<Rightarrow> real) \<Rightarrow> nat \<Rightarrow> string" where
  \<comment> \<open>\<open>for (let i = 0; i < n; i++)\<close> from the empty result\<close>
  "pronounceableLoop rnd n = foldl (pronounceableStep rnd) [] [0..<n]"

definition charsetStep :: "(nat \<Rightarrow> real) \<Rightarrow> string \<Rightarrow> string \<Rightarrow> nat \<Rightarrow> string" where
  \<comment> \<open>the body of the loop over the charset, at counter \<open>i\<close>\<close>
  "charsetStep rnd charset result i =
     result @ strIndex charset (randomIndex (rnd i) (length charset))"

definition charsetLoop :: "(nat \<Rightarrow> real) \<Rightarrow> string \<Rightarrow> nat \<Rightarrow> string" where
  "charsetLoop rnd charset n = foldl (charsetStep rnd charset) [] [0..<n]"

definition lowercaseRange :: string where
  "lowercaseRange = ''abcdefghijklmnopqrstuvwxyz''"

definition uppercaseRange :: string where
  "uppercaseRange = ''ABCDEFGHIJKLMNOPQRSTUVWXYZ''"

definition numberRange :: string where
  "numberRange = ''0123456789''"

definition symbolRange :: string where
  "symbolRange = ''!@#$%^&*()_+-=[]{}|;:,.<>?''"

definition similarChars :: string where
  \<comment> \<open>the class \<open>[il1Lo0O]\<close>\<close>
  "similarChars = ''il1Lo0O''"

definition buildCharset :: "generatorSettings \<Rightarrow> string" where
  "buildCharset gs =
     (let charset = [];
          charset = (if includeLowercase gs then charset @ lowercaseRange else charset);
          charset = (if includeUppercase gs then charset @ uppercaseRange else charset);
          charset = (if includeNumbers gs then charset @ numberRange else charset);
          charset = (if includeSymbols gs then charset @ symbolRange else charset)
      in if excludeSimilar gs then filter (\<lambda>c. c \<notin> set similarChars) charset else charset)"

definition generatePassword :: "generatorSettings \<Rightarrow> (nat \<Rightarrow> real) \<Rightarrow> string option" where
  \<comment> \<open>the value handed to \<open>setGeneratedPassword\<close>; \<open>None\<close> when the function returns
      without setting one\<close>
  "generatePassword gs rnd =
     (if pronounceable gs then
        (let n = nat \<lceil>real (lengthSetting gs) / 2\<rceil>;
             result = pronounceableLoop rnd n;
             withNumber = (includeNumbers gs \<and> length result < lengthSetting gs);
             result = (if withNumber then result @ showInt (randomIndex (rnd n) 10) else result);
             k = (if withNumber then n + 1 else n);
             result = (if includeSymbols gs \<and> length result < lengthSetting gs
                       then result @ strIndex pronounceableSymbols (randomIndex (rnd k) 5)
                       else result)
         in Some (take (lengthSetting gs) result))
      else
        (let charset = buildCharset gs
         in if charset = [] then None
            else Some (charsetLoop rnd charset (lengthSetting gs))))"

definition generatedPasswordAfter :: "string \<Rightarrow> generatorSettings \<Rightarrow> (nat \<Rightarrow> real) \<Rightarrow> string" where
  \<comment> \<open>the component's state \<open>generatedPassword\<close> after one run, from its value before\<close>
  "generatedPasswordAfter old gs rnd =
     (case generatePassword gs rnd of None \<Rightarrow> old | Some result \<Rightarrow> result)"

text \<open>Sample inputs: two random sources inside the unit interval, and four settings.\<close>

definition constantSource :: "real \<Rightarrow> nat \<Rightarrow> real" where
  "constantSource r k = r"

definition cyclicSource :: "nat \<Rightarrow> nat \<Rightarrow> real" where
  "cyclicSource m k = real (k mod m) / real m"

definition defaultSettings :: generatorSettings where
  \<comment> \<open>the initial value of \<open>generatorSettings\<close>\<close>
  "defaultSettings = \<lparr>lengthSetting = 16, includeUppercase = True, includeLowercase = True,
     includeNumbers = True, includeSymbols = True, excludeSimilar = False,
     pronounceable = False\<rparr>"

definition pronounceableSettings :: generatorSettings where
  "pronounceableSettings = defaultSettings\<lparr>pronounceable := True\<rparr>"

definition noSimilarSettings :: generatorSettings where
  "noSimilarSettings = defaultSettings\<lparr>lengthSetting := 8, excludeSimilar := True\<rparr>"

definition emptySettings :: generatorSettings where
  "emptySettings = \<lparr>lengthSetting = 16, includeUppercase = False, includeLowercase = False,
     includeNumbers = False, includeSymbols = False, excludeSimilar = False,
     pronounceable = False\<rparr>"

section \<open>Reference data\<close>

text \<open>The static tables of the component, in the order of the source.\<close>

definition COMMON_PREFIXES :: "string list" where
  "COMMON_PREFIXES =
     [''admin'', ''user'', ''test'', ''password'', ''pass'', ''welcome'', ''abc'',
      ''qwerty'', ''letme'', ''hello'', ''temp'', ''demo'', ''login'', ''secure'', ''dev'',
      ''guest'', ''acc'']"

definition COMMON_SUFFIXES :: "string list" where
  "COMMON_SUFFIXES =
     [''123'', ''1234'', ''12345'', ''123456'', ''2023'', ''2024'', ''2022'', ''2021'',
      ''!'', ''!!'', ''@'', ''#'', ''1'', ''01'', ''0'']"

definition foodWords :: "string list" where
  "foodWords =
     [''pizza'', ''burger'', ''pasta'', ''sushi'', ''nasi'', ''rice'', ''bread'',
      ''cheese'', ''nasigoreng'', ''nasikuning'', ''chocolate'', ''cookie'', ''cake'',
      ''coffee'', ''tea'', ''banana'', ''apple'', ''orange'', ''chicken'', ''beef'',
      ''fish'', ''candy'', ''sugar'', ''salt'', ''cream'', ''milk'', ''water'', ''juice'',
      ''soda'', ''wine'', ''beer'']"

definition animalsWords :: "string list" where
  "animalsWords =
     [''cat'', ''dog'', ''lion'', ''tiger'', ''bear'', ''monkey'', ''horse'', ''bird'',
      ''fish'', ''dragon'', ''eagle'', ''wolf'', ''fox'', ''rabbit'', ''mouse'', ''rat'',
      ''deer'', ''cow'', ''goat'', ''sheep'', ''pig'', ''duck'', ''chicken'', ''snake'',
      ''lizard'', ''turtle'', ''elephant'', ''panda'', ''koala'', ''dolphin'', ''whale'',
      ''shark'', ''zebra'', ''giraffe'', ''frog'']"

definition colorsWords :: "string list" where
  "colorsWords =
     [''red'', ''blue'', ''green'', ''black'', ''white'', ''orange'', ''purple'',
      ''yellow'', ''pink'', ''brown'', ''gold'', ''silver'', ''gray'', ''violet'',
      ''indigo'', ''magenta'', ''cyan'', ''teal'', ''maroon'', ''navy'', ''lime'',
      ''olive'', ''aqua'', ''coral'']"

definition sportsWords :: "string list" where
  "sportsWords =
     [''soccer'', ''football'', ''basketball'', ''tennis'', ''golf'', ''hockey'',
      ''baseball'', ''rugby'', ''cricket'', ''volleyball'', ''badminton'', ''swimming'',
      ''boxing'', ''racing'', ''running'', ''cycling'', ''skating'', ''skiing'',
      ''surfing'', ''bowling'', ''billiards'', ''archery'', ''fishing'', ''hunting'',
      ''karate'', ''judo'', ''taekwondo'']"

definition techWords :: "string list" where
  "techWords =
     [''computer'', ''laptop'', ''windows'', ''apple'', ''android'', ''github'', ''code'',
      ''tech'', ''cyber'', ''crypto'', ''bitcoin'', ''google'', ''microsoft'',
      ''facebook'', ''twitter'', ''instagram'', ''youtube'', ''tiktok'', ''snapchat'',
      ''linkedin'', ''wifi'', ''internet'', ''router'', ''server'', ''cloud'', ''linux'',
      ''ubuntu'', ''python'', ''java'', ''javascript'', ''html'', ''css'', ''php'',
      ''ruby'', ''swift'', ''data'', ''cyber'', ''hack'', ''secure'', ''virus'', ''trojan'']"

definition emotionsWords :: "string list" where
  "emotionsWords =
     [''happy'', ''love'', ''smile'', ''cool'', ''angry'', ''sad'', ''peace'', ''hope'',
      ''dream'', ''joy'', ''excited'', ''calm'', ''relax'', ''stress'', ''worry'',
      ''fear'', ''brave'', ''proud'', ''shame'', ''guilt'', ''trust'', ''doubt'',
      ''surprise'', ''disgust'', ''pleasure'', ''pain'', ''faith'', ''believe'']"

definition namesWords :: "string list" where
  "namesWords =
     [''john'', ''mike'', ''david'', ''james'', ''alex'', ''sarah'', ''emma'', ''lisa'',
      ''anna'', ''maria'', ''chris'', ''robert'', ''michael'', ''william'', ''mary'',
      ''patricia'', ''linda'', ''barbara'', ''elizabeth'', ''jennifer'', ''susan'',
      ''jessica'', ''thomas'', ''charles'', ''daniel'', ''matthew'', ''mark'', ''donald'',
      ''steven'', ''paul'', ''andrew'', ''josh'', ''george'', ''kevin'']"

definition placesWords :: "string list" where
  "placesWords =
     [''paris'', ''london'', ''tokyo'', ''berlin'', ''rome'', ''madrid'', ''moscow'',
      ''dubai'', ''sydney'', ''beijing'', ''newyork'', ''chicago'', ''boston'',
      ''seattle'', ''atlanta'', ''miami'', ''vegas'', ''texas'', ''canada'', ''mexico'',
      ''brazil'', ''india'', ''china'', ''japan'', ''korea'', ''egypt'', ''africa'',
      ''europe'', ''asia'', ''america'']"

definition monthsWords :: "string list" where
  "monthsWords =
     [''january'', ''february'', ''march'', ''april'', ''may'', ''june'', ''july'',
      ''august'', ''september'', ''october'', ''november'', ''december'', ''jan'', ''feb'',
      ''mar'', ''apr'', ''jun'', ''jul'', ''aug'', ''sep'', ''oct'', ''nov'', ''dec'']"

definition daysWords :: "string list" where
  "daysWords =
     [''monday'', ''tuesday'', ''wednesday'', ''thursday'', ''friday'', ''saturday'',
      ''sunday'', ''mon'', ''tue'', ''wed'', ''thu'', ''fri'', ''sat'', ''sun'']"

definition COMMON_WORDS_CATEGORIES :: "(string \<times> string list) list" where
  \<comment> \<open>the object's entries, in insertion order\<close>
  "COMMON_WORDS_CATEGORIES =
     [(''food'', foodWords),
      (''animals'', animalsWords),
      (''colors'', colorsWords),
      (''sports'', sportsWords),
      (''tech'', techWords),
      (''emotions'', emotionsWords),
      (''names'', namesWords),
      (''places'', placesWords),
      (''months'', monthsWords),
      (''days'', daysWords)]"

definition OTHER_COMMON_WORDS :: "string list" where
  "OTHER_COMMON_WORDS =
     [''password'', ''secret'', ''private'', ''letme'', ''hello'', ''please'', ''money'',
      ''summer'', ''winter'', ''spring'', ''autumn'', ''monday'', ''tuesday'',
      ''wednesday'', ''thursday'', ''friday'', ''saturday'', ''sunday'', ''company'',
      ''business'', ''office'', ''house'', ''garden'', ''school'', ''college'', ''friend'',
      ''family'', ''welcome'', ''thank'', ''sorry'', ''great'', ''awesome'', ''super'',
      ''nice'', ''home'', ''work'', ''play'', ''simple'', ''easy'', ''hard'', ''strong'',
      ''weak'', ''big'', ''small'', ''first'', ''last'', ''best'', ''one'', ''two'',
      ''three'', ''four'', ''five'', ''six'', ''seven'', ''eight'', ''nine'', ''ten'']"

definition ALL_COMMON_WORDS :: "string list" where
  \<comment> \<open>\<open>Object.values(COMMON_WORDS_CATEGORIES).flat()\<close>\<close>
  "ALL_COMMON_WORDS = concat (map snd COMMON_WORDS_CATEGORIES)"

definition commonPasswords :: "string list" where
  "commonPasswords =
     [''123456'', ''password'', ''123456789'', ''12345678'', ''12345'', ''1234567'',
      ''password123'', ''admin'', ''welcome'', ''qwerty'', ''abc123'', ''Password1'',
      ''letmein'', ''monkey'', ''dragon'', ''sunshine'', ''princess'', ''football'',
      ''charlie'', ''shadow'', ''master'', ''jordan'', ''superman'', ''harley'',
      ''qwerty123'', ''password1'', ''admin123'', ''test123'', ''common123'']"

definition keyboardPatterns :: "string list" where
  "keyboardPatterns =
     [''qwerty'', ''asdf'', ''zxcv'', ''1234'', ''abcd'', ''qwer'', ''asdfgh'', ''123456'',
      ''qwertyuiop'', ''asdfghjkl'', ''zxcvbnm'', ''098765'']"

section \<open>The heuristic classifier\<close>

text \<open>
  \<open>isCommonWord\<close> returns \<open>false\<close>, \<open>true\<close> or a number; the caller tells the three
  apart (\<open>=== true\<close>, \<open>> 0\<close>).
\<close>

datatype commonality = IsFalse | IsTrue | Chance real

definition isCommonWord :: "string \<Rightarrow> commonality" where
  "isCommonWord word =
     (if word = [] \<or> length word < 3 then IsFalse
      else
        (let lowercaseWord = toLowerCase word
         in if list_ex (\<lambda>category. lowercaseWord \<in> set (snd category)) COMMON_WORDS_CATEGORIES
            then IsTrue
            else if list_ex (\<lambda>prefix. startsWith lowercaseWord prefix) COMMON_PREFIXES
            then IsTrue
            else if lowercaseWord \<in> set OTHER_COMMON_WORDS then IsTrue
            else if length lowercaseWord \<le> 5 then Chance (7 / 10)
            else if length lowercaseWord \<ge> 8 then IsFalse
            else Chance (4 / 10)))"

definition knownCommonWord :: "string \<Rightarrow> bool" where
  \<comment> \<open>the specification's "definitely common": the lowercase word occurs in a dictionary
      category or among the other common words, or starts with a common prefix\<close>
  "knownCommonWord lowercaseWord =
     (list_ex (\<lambda>category. lowercaseWord \<in> set (snd category)) COMMON_WORDS_CATEGORIES \<or>
      lowercaseWord \<in> set OTHER_COMMON_WORDS \<or>
      list_ex (\<lambda>prefix. startsWith lowercaseWord prefix) COMMON_PREFIXES)"

section \<open>Pattern helpers, common passwords and entropy\<close>

definition capitalize :: "string \<Rightarrow> string" where
  \<comment> \<open>\<open>s.charAt(0).toUpperCase() + s.slice(1)\<close>\<close>
  "capitalize s = (case s of [] \<Rightarrow> [] | c # t \<Rightarrow> toUpperChar c # t)"

definition commonSequences :: "string list" where
  \<comment> \<open>\<open>sequences\<close> in \<open>isLikelyCommonPassword\<close>\<close>
  "commonSequences =
     [''0123'', ''1234'', ''2345'', ''3456'', ''4567'', ''5678'', ''6789'', ''abcd'', ''wxyz'']"

definition commonWordsWithNumbers :: "string list" where
  \<comment> \<open>\<open>commonWords\<close> in \<open>isLikelyCommonPassword\<close>\<close>
  "commonWordsWithNumbers =
     [''password'', ''admin'', ''user'', ''login'', ''welcome'', ''manager'', ''secure'',
      ''security'', ''test'', ''server'', ''database'', ''account'', ''system'', ''network'',
      ''default'', ''guest'']"

definition isLikelyCommonPassword :: "string \<Rightarrow> bool" where
  "isLikelyCommonPassword pwd =
     (if pwd = [] then False
      else
        (let lowercasePwd = toLowerCase pwd
         in if lowercasePwd \<in> set commonPasswords then True
            else if list_ex (\<lambda>prefix. list_ex (\<lambda>suffix. lowercasePwd = prefix @ suffix)
                       COMMON_SUFFIXES) COMMON_PREFIXES then True
            else if list_ex (\<lambda>food. list_ex (\<lambda>suffix. lowercasePwd = food @ suffix)
                       COMMON_SUFFIXES) ALL_COMMON_WORDS then True
            else if list_ex (\<lambda>common. length common > 4 \<and>
                       (lowercasePwd = common \<or> lowercasePwd = common @ ''!'' \<or>
                        lowercasePwd = capitalize common)) commonPasswords then True
            else if list_ex (\<lambda>pattern. length pattern \<ge> 4 \<and>
                       includesStr lowercasePwd pattern \<and>
                       real (length pattern) \<ge> real (length lowercasePwd) / 2)
                     keyboardPatterns then True
            else if list_ex (\<lambda>seq. includesStr lowercasePwd seq \<and>
                       real (length seq) \<ge> real (length lowercasePwd) / 2)
                     commonSequences then True
            else if (case repeatMatches 3 lowercasePwd of
                       [] \<Rightarrow> False
                     | r # _ \<Rightarrow> real (length r) \<ge> real (length lowercasePwd) / 2) then True
            else if isYear lowercasePwd then True
            else if leetCommon lowercasePwd then True
            else if length pwd < 8 \<and> (allOf isLetter pwd \<or> allOf isDigit pwd) then True
            else if lettersThenFewDigits lowercasePwd \<and>
                    stripTrailingDigits lowercasePwd \<in> set commonWordsWithNumbers then True
            else False))"

definition getCharsetSize :: "string \<Rightarrow> nat" where
  "getCharsetSize pwd =
     (let size = (if hasLower pwd then 26 else 0) + (if hasUpper pwd then 26 else 0) +
                 (if hasNumber pwd then 10 else 0) + (if hasSymbol pwd then 33 else 0)
      in if size = 0 then 10 else size)"

definition containsKeyboardPattern :: "string \<Rightarrow> bool" where
  "containsKeyboardPattern pwd =
     list_ex (\<lambda>pattern. includesStr (toLowerCase pwd) pattern)
       [''qwerty'', ''asdfgh'', ''zxcvbnm'', ''qwertz'', ''12345'']"

record sequentialResult =
  seqFound :: bool
  seqPattern :: string
  seqLength :: nat

definition longerMatch :: "string \<Rightarrow> string \<Rightarrow> string \<Rightarrow> string" where
  \<comment> \<open>the body of a loop that keeps the longest pattern found in \<open>s\<close>\<close>
  "longerMatch s longestMatch pattern =
     (if includesStr s pattern \<and> length pattern > length longestMatch then pattern
      else longestMatch)"

definition containsSequentialPattern :: "string \<Rightarrow> sequentialResult" where
  "containsSequentialPattern pwd =
     (let lowercasePwd = toLowerCase pwd;
          longestMatch = foldl (longerMatch lowercasePwd) []
            [''123456'', ''12345'', ''1234'', ''abcdef'', ''abcde'', ''abcd'', ''654321'',
             ''54321'', ''4321'']
      in if longestMatch \<noteq> []
         then \<lparr>seqFound = True, seqPattern = longestMatch, seqLength = length longestMatch\<rparr>
         else \<lparr>seqFound = False, seqPattern = [], seqLength = 0\<rparr>)"

text \<open>
  The entropy is \<open>Math.log2(Math.pow(charset || 1, pwd.length))\<close> times the penalty
  factors. In the source the power overflows to \<open>Infinity\<close> from some 150 characters on;
  here it is the exact real.
\<close>

definition calculateEntropy :: "string \<Rightarrow> real" where
  "calculateEntropy pwd =
     (if pwd = [] then 0
      else
        (let charset = (if hasLower pwd then 26 else 0) + (if hasUpper pwd then 26 else 0) +
                       (if hasNumber pwd then 10 else 0) + (if hasSymbol pwd then 33 else 0);
             rawEntropy = log 2 (real ((if charset = 0 then 1 else charset) ^ length pwd));
             repeats = repeatMatches 2 pwd;
             rawEntropy =
               (if repeats \<noteq> []
                then (let repeatLength = sum_list (map length repeats);
                          repetitionPenalty = (real repeatLength / real (length pwd)) * (25 / 100)
                      in rawEntropy * (1 - repetitionPenalty))
                else rawEntropy);
             seqResult = containsSequentialPattern pwd;
             hasKeyboardPattern = containsKeyboardPattern pwd;
             rawEntropy =
               (if seqFound seqResult \<or> hasKeyboardPattern
                then (let patternRatio =
                            (if seqFound seqResult
                             then max 0 (real (seqLength seqResult) / real (length pwd))
                             else 0);
                          entropyReduction = 2 / 10 + patternRatio * (1 / 10)
                      in rawEntropy * (1 - entropyReduction))
                else rawEntropy);
             rawEntropy =
               (if lettersThenDigits 1 pwd then rawEntropy * (9 / 10) else rawEntropy)
         in max 0 rawEntropy))"

section \<open>The composite scorer\<close>

text \<open>
  \<open>assessPasswordStrength\<close> updates three local variables, \<open>score\<close>, \<open>issues\<close> and
  \<open>patterns\<close>, in a fixed sequence of checks. The three variables are the record
  \<open>scoring\<close>; each check is a function from the record before it to the record after it.
\<close>

record scoring =
  score :: real
  issues :: "string list"
  patterns :: "string list"

definition characterTypes :: "string \<Rightarrow> nat" where
  "characterTypes pwd =
     (if hasUpper pwd then 1 else 0) + (if hasLower pwd then 1 else 0) +
     (if hasNumber pwd then 1 else 0) + (if hasSymbol pwd then 1 else 0)"

definition diversityPoints :: "nat \<Rightarrow> real" where
  \<comment> \<open>the \<open>switch\<close> on \<open>characterTypes\<close>\<close>
  "diversityPoints n =
     (if n = 4 then 40 else if n = 3 then 30 else if n = 2 then 20 else if n = 1 then 10
      else 0)"

definition diversityStep :: "string \<Rightarrow> scoring \<Rightarrow> scoring" where
  "diversityStep pwd st = st\<lparr>score := score st + diversityPoints (characterTypes pwd)\<rparr>"

definition symbolStep :: "string \<Rightarrow> scoring \<Rightarrow> scoring" where
  "symbolStep pwd st =
     (if hasSymbol pwd
      then
        (let symbolCount = length (filter isSymbol pwd);
             symbolRatio = real symbolCount / real (length pwd);
             symbolsOnlyAtPredictablePositions = (isSymbol (hd pwd) \<or> isSymbol (last pwd))
         in if symbolCount = 1 \<and> symbolsOnlyAtPredictablePositions \<and> length pwd < 16 \<and>
               score st < 80
            then
              (let penaltyAmount = max 3 (real_of_int (jsRound (10 - real (length pwd) / 4)))
               in st\<lparr>score := score st - penaltyAmount,
                     issues := issues st @
                       [''Distribute symbols throughout password for better security''],
                     patterns := patterns st @ [''Single symbol at predictable position'']\<rparr>)
            else if symbolRatio < 5 / 100 \<and> length pwd > 20
            then st\<lparr>score := score st - 2\<rparr>
            else st)
      else st)"

definition lengthStep :: "string \<Rightarrow> scoring \<Rightarrow> scoring" where
  "lengthStep pwd st =
     (if length pwd \<ge> 16 then st\<lparr>score := score st + 30\<rparr>
      else if length pwd \<ge> 12 then st\<lparr>score := score st + 25\<rparr>
      else if length pwd \<ge> 8 then st\<lparr>score := score st + 15\<rparr>
      else if length pwd \<ge> 6 then st\<lparr>score := score st + 10\<rparr>
      else st\<lparr>score := score st + 5, issues := issues st @ [''Too short'']\<rparr>)"

definition entropyPoints :: "real \<Rightarrow> real" where
  "entropyPoints e =
     (if e > 90 then 20 else if e > 70 then 15 else if e > 50 then 10 else if e > 30 then 5
      else 0)"

definition entropyStep :: "real \<Rightarrow> scoring \<Rightarrow> scoring" where
  "entropyStep e st = st\<lparr>score := score st + entropyPoints e\<rparr>"

definition commonStep :: "bool \<Rightarrow> scoring \<Rightarrow> scoring" where
  "commonStep isCommon st =
     (if isCommon
      then st\<lparr>issues := issues st @ [''Common password or pattern detected''],
              patterns := patterns st @ [''Common password pattern''],
              score := score st - 40\<rparr>
      else st)"

definition keyboardCheck :: "string \<Rightarrow> scoring \<Rightarrow> string \<Rightarrow> scoring" where
  \<comment> \<open>the callback of \<open>keyboardPatterns.forEach\<close>, run for one entry of the table\<close>
  "keyboardCheck pwd st entry =
     (if includesStr (toLowerCase pwd) entry
      then
        (let patternRatio = real (length entry) / real (length pwd)
         in st\<lparr>patterns := patterns st @ [''Keyboard pattern: '' @ entry],
                score := score st - real_of_int (jsRound (25 * patternRatio))\<rparr>)
      else st)"

definition keyboardStep :: "string \<Rightarrow> scoring \<Rightarrow> scoring" where
  "keyboardStep pwd st = foldl (keyboardCheck pwd) st keyboardPatterns"

definition repeatingStep :: "string \<Rightarrow> scoring \<Rightarrow> scoring" where
  "repeatingStep pwd st =
     (let repeatingChars = repeatMatches 3 pwd
      in if repeatingChars \<noteq> []
         then st\<lparr>patterns := patterns st @
                   [''Repeating characters: '' @ joinWith '', '' repeatingChars],
                 score := score st - 15\<rparr>
         else st)"

definition sequentialPatterns :: "(string \<times> string) list" where
  \<comment> \<open>the objects \<open>{ pattern, name }\<close>, as pairs\<close>
  "sequentialPatterns =
     [(''123456'', ''Sequential pattern: 123456''),
      (''12345'', ''Sequential pattern: 12345''),
      (''1234'', ''Sequential pattern: 1234''),
      (''abcdef'', ''Sequential pattern: abcdef''),
      (''abcde'', ''Sequential pattern: abcde''),
      (''abcd'', ''Sequential pattern: abcd'')]"

definition longerPattern ::
  "string \<Rightarrow> (string \<times> string) option \<Rightarrow> string \<times> string \<Rightarrow> (string \<times> string) option" where
  \<comment> \<open>the body of the loop that finds the longest matching sequential pattern\<close>
  "longerPattern pwd longestPattern entry =
     (if includesStr (toLowerCase pwd) (fst entry)
      then (case longestPattern of
              None \<Rightarrow> Some entry
            | Some l \<Rightarrow> if length (fst entry) > length (fst l) then Some entry
                        else longestPattern)
      else longestPattern)"

definition sequentialStep :: "string \<Rightarrow> scoring \<Rightarrow> scoring" where
  "sequentialStep pwd st =
     (case foldl (longerPattern pwd) None sequentialPatterns of
        None \<Rightarrow> st
      | Some longestPattern \<Rightarrow>
          (let patternRatio = real (length (fst longestPattern)) / real (length pwd)
           in st\<lparr>patterns := patterns st @ [snd longestPattern],
                  score := score st - real_of_int (jsRound (20 * patternRatio))\<rparr>))"

definition alternatingStep :: "string \<Rightarrow> scoring \<Rightarrow> scoring" where
  "alternatingStep pwd st =
     (if alternating pwd
      then st\<lparr>patterns := patterns st @ [''Alternating pattern detected''],
              score := score st - 15\<rparr>
      else st)"

definition leetStep :: "string \<Rightarrow> scoring \<Rightarrow> scoring" where
  "leetStep pwd st =
     (if leetSpeak pwd
      then st\<lparr>patterns := patterns st @ [''L33t speak pattern detected''],
              score := score st - 10\<rparr>
      else st)"

definition formulaStep :: "string \<Rightarrow> scoring \<Rightarrow> scoring" where
  "formulaStep pwd st =
     (if wordSymbolNumber pwd
      then st\<lparr>patterns := patterns st @ [''Word+symbol+number formula detected''],
              score := score st - 15\<rparr>
      else st)"

definition riskyWords :: "string list" where
  \<comment> \<open>\<open>commonWords\<close> in \<open>assessPasswordStrength\<close>\<close>
  "riskyWords =
     [''password'', ''admin'', ''user'', ''login'', ''welcome'', ''manager'', ''secure'',
      ''security'', ''test'', ''server'', ''database'', ''account'']"

definition digitTriples :: "string list" where
  \<comment> \<open>the alternatives of \<open>/123|234|...|321/\<close>, and the inner array \<open>sequentialPatterns\<close>\<close>
  "digitTriples =
     [''123'', ''234'', ''345'', ''456'', ''567'', ''678'', ''789'', ''987'', ''876'', ''765'',
      ''654'', ''543'', ''432'', ''321'']"

definition simpleNumbers :: "string list" where
  \<comment> \<open>\<open>/^(123|321|111|222|333|444|555|666|777|888|999|000)$/\<close>\<close>
  "simpleNumbers =
     [''123'', ''321'', ''111'', ''222'', ''333'', ''444'', ''555'', ''666'', ''777'', ''888'',
      ''999'', ''000'']"

definition uncommonWordStep :: "string \<Rightarrow> string \<Rightarrow> scoring \<Rightarrow> scoring" where
  \<comment> \<open>the last branch of the word + number check\<close>
  "uncommonWordStep pwd numberPart st =
     (let st = st\<lparr>patterns := patterns st @ [''Uncommon word + number pattern''],
                   score := score st + 5\<rparr>;
          isSequential = list_ex (includesStr numberPart) digitTriples;
          st =
            (if isSequential
             then
               (let st = st\<lparr>patterns := patterns st @ [''Sequential numbers in pattern'']\<rparr>;
                    longestMatch = foldl (longerMatch numberPart) [] digitTriples;
                    sequentialRatio = real (length longestMatch) / real (length pwd);
                    basePenalty = 10;
                    adjustedPenalty = real_of_int (jsRound (basePenalty * sequentialRatio * 2));
                    st = st\<lparr>score := score st - min adjustedPenalty 10\<rparr>;
                    lengthBonus = real (length numberPart)
                in st\<lparr>score := score st + min lengthBonus 3\<rparr>)
             else if length numberPart \<ge> 3
             then st\<lparr>score := score st + min 5 (real (length numberPart) - 2)\<rparr>
             else st)
      in if numberPart \<in> set simpleNumbers then st\<lparr>score := score st - 5\<rparr> else st)"

definition wordNumberStep :: "string \<Rightarrow> scoring \<Rightarrow> scoring" where
  \<comment> \<open>\<open>pwd.match(/^([a-z]{3,})([0-9]+)$/i)\<close> and what follows it\<close>
  "wordNumberStep pwd st =
     (if lettersThenDigits 3 pwd
      then
        (let wordPart = toLowerCase (takeWhile isLetter pwd);
             numberPart = dropWhile isLetter pwd
         in if wordPart \<in> set riskyWords
            then st\<lparr>patterns := patterns st @ [''Common word + number pattern''],
                    score := score st - 25\<rparr>
            else
              (case find (\<lambda>category. wordPart \<in> set (snd category)) COMMON_WORDS_CATEGORIES of
                 Some category \<Rightarrow>
                   st\<lparr>patterns := patterns st @
                        [capitalize (fst category) @ '' word + number pattern''],
                      score := score st - 25\<rparr>
               | None \<Rightarrow>
                   (case isCommonWord wordPart of
                      IsTrue \<Rightarrow>
                        st\<lparr>patterns := patterns st @ [''Common word + number pattern''],
                           score := score st - 20\<rparr>
                    | Chance commonality \<Rightarrow>
                        if commonality > 0
                        then st\<lparr>patterns := patterns st @
                                  [''Potentially common word + number pattern''],
                                score := score st - 10 * commonality\<rparr>
                        else uncommonWordStep pwd numberPart st
                    | IsFalse \<Rightarrow> uncommonWordStep pwd numberPart st)))
      else st)"

definition dateStep :: "string \<Rightarrow> scoring \<Rightarrow> scoring" where
  "dateStep pwd st =
     (if isYear pwd \<or> isDate pwd
      then st\<lparr>patterns := patterns st @ [''Date pattern''], score := score st - 20\<rparr>
      else st)"

definition singleTypePenalty :: "string \<Rightarrow> real" where
  \<comment> \<open>what the check for a single character type subtracts\<close>
  "singleTypePenalty pwd =
     (if length pwd > 1
      then (if allOf isLetter pwd then 20 else if allOf isDigit pwd then 30 else 0)
      else 0)"

definition singleTypeStep :: "string \<Rightarrow> scoring \<Rightarrow> scoring" where
  "singleTypeStep pwd st =
     (if length pwd > 1
      then (if allOf isLetter pwd
            then st\<lparr>issues := issues st @ [''Only letters''], score := score st - 20\<rparr>
            else if allOf isDigit pwd
            then st\<lparr>issues := issues st @ [''Only numbers''], score := score st - 30\<rparr>
            else st)
      else st)"

definition consistencyStep :: "string \<Rightarrow> scoring \<Rightarrow> scoring" where
  "consistencyStep pwd st =
     (let consistencyBonus = min 10 (real (length pwd))
      in st\<lparr>score := score st + consistencyBonus\<rparr>)"

definition missingTypesStep :: "string \<Rightarrow> scoring \<Rightarrow> scoring" where
  "missingTypesStep pwd st =
     (let st = (if \<not> hasUpper pwd then st\<lparr>issues := issues st @ [''No uppercase'']\<rparr> else st);
          st = (if \<not> hasLower pwd then st\<lparr>issues := issues st @ [''No lowercase'']\<rparr> else st);
          st = (if \<not> hasNumber pwd then st\<lparr>issues := issues st @ [''No numbers'']\<rparr> else st)
      in if \<not> hasSymbol pwd then st\<lparr>issues := issues st @ [''No symbols'']\<rparr> else st)"

definition scoreChecks :: "string \<Rightarrow> real \<Rightarrow> bool \<Rightarrow> scoring" where
  \<comment> \<open>the checks in the order of the source, from \<open>score = 0\<close> and two empty lists, with
      the entropy and the common flag computed by the caller\<close>
  "scoreChecks pwd e isCommon =
     (let st = \<lparr>score = 0, issues = [], patterns = []\<rparr>;
          st = diversityStep pwd st;
          st = symbolStep pwd st;
          st = lengthStep pwd st;
          st = entropyStep e st;
          st = commonStep isCommon st;
          st = keyboardStep pwd st;
          st = repeatingStep pwd st;
          st = sequentialStep pwd st;
          st = alternatingStep pwd st;
          st = leetStep pwd st;
          st = formulaStep pwd st;
          st = wordNumberStep pwd st;
          st = dateStep pwd st;
          st = singleTypeStep pwd st;
          st = consistencyStep pwd st
      in missingTypesStep pwd st)"

definition normalizeScore :: "string \<Rightarrow> bool \<Rightarrow> scoring \<Rightarrow> real" where
  \<comment> \<open>the cap at 100, the minimum of 1, and the special case of 65\<close>
  "normalizeScore pwd isCommon st =
     (let normalized = max 1 (min 100 (score st))
      in if characterTypes pwd = 4 \<and> length pwd \<ge> 12 \<and> length (patterns st) = 0 \<and>
            \<not> isCommon
         then max normalized 65
         else normalized)"

definition strengthLevel :: "real \<Rightarrow> real \<Rightarrow> string \<times> string" where
  \<comment> \<open>\<open>strength\<close> and \<open>strengthColor\<close>\<close>
  "strengthLevel s totalAdjustment =
     (if s \<ge> 90 + totalAdjustment then (''Excellent'', ''text-purple-500'')
      else if s \<ge> 80 + totalAdjustment then (''Very Strong'', ''text-green-500'')
      else if s \<ge> 70 + totalAdjustment then (''Strong'', ''text-blue-500'')
      else if s \<ge> 50 + totalAdjustment then (''Moderate'', ''text-yellow-500'')
      else if s \<ge> 30 + totalAdjustment then (''Weak'', ''text-orange-500'')
      else (''Very Weak'', ''text-red-500''))"

record assessmentDetails =
  strength :: string
  strengthColor :: string
  entropy :: real
  hasUpperField :: bool
  hasLowerField :: bool
  hasNumberField :: bool
  hasSymbolField :: bool
  lengthField :: nat
  isCommonField :: bool
  hasPatterns :: bool

text \<open>
  The result always has \<open>score\<close>, \<open>issues\<close> and \<open>patterns\<close>; for the empty password the
  other properties are absent (\<open>None\<close>).
\<close>

record assessment = scoring +
  details :: "assessmentDetails option"

definition assessPasswordStrength :: "string \<Rightarrow> assessment" where
  "assessPasswordStrength pwd =
     (if pwd = [] then \<lparr>score = 0, issues = [], patterns = [], details = None\<rparr>
      else
        (let e = calculateEntropy pwd;
             isCommon = isLikelyCommonPassword pwd;
             st = scoreChecks pwd e isCommon;
             finalScore = normalizeScore pwd isCommon st;
             patternAdjustment = (if length (patterns st) > 0 then 10 else 0);
             commonAdjustment = (if isCommon then 10 else 0);
             totalAdjustment = patternAdjustment + commonAdjustment;
             level = strengthLevel finalScore totalAdjustment;
             adjustedEntropy =
               (if length (patterns st) > 0 \<and> finalScore < 25 then min e 40 else e)
         in \<lparr>score = finalScore, issues = issues st, patterns = patterns st,
              details = Some
                \<lparr>strength = fst level, strengthColor = snd level, entropy = adjustedEntropy,
                   hasUpperField = hasUpper pwd, hasLowerField = hasLower pwd,
                   hasNumberField = hasNumber pwd, hasSymbolField = hasSymbol pwd,
                   lengthField = length pwd, isCommonField = isCommon,
                   hasPatterns = (length (patterns st) > 0)\<rparr>\<rparr>))"

text \<open>
  Three amounts that the checks add or subtract without recording a pattern, named for
  the statements about scores.
\<close>

definition lowSymbolPenalty :: "string \<Rightarrow> real" where
  \<comment> \<open>the mild suggestion of the symbol check, for few symbols in a very long password\<close>
  "lowSymbolPenalty pwd =
     (if hasSymbol pwd \<and> real (length (filter isSymbol pwd)) / real (length pwd) < 5 / 100 \<and>
         length pwd > 20
      then 2 else 0)"

definition lengthPoints :: "nat \<Rightarrow> real" where
  \<comment> \<open>what the length check adds\<close>
  "lengthPoints n =
     (if n \<ge> 16 then 30 else if n \<ge> 12 then 25 else if n \<ge> 8 then 15
      else if n \<ge> 6 then 10 else 5)"

section \<open>The crack-time estimator\<close>

record crackTimes =
  online :: real
  offline :: real
  optimized :: real

definition guessesOnline :: real where
  "guessesOnline = 1000"

definition guessesOffline :: real where
  "guessesOffline = 1000000000"

definition guessesOptimized :: real where
  "guessesOptimized = 50000000000"

definition adjustmentFactorOf :: "string \<Rightarrow> real" where
  \<comment> \<open>the variable \<open>adjustmentFactor\<close> of \<open>calculateTimeToCrack\<close>, from \<open>1.0\<close> to the
      final \<open>Math.max(0.05, adjustmentFactor)\<close>\<close>
  "adjustmentFactorOf pwd =
     (let adjustmentFactor = 1;
          adjustmentFactor =
            (if containsKeyboardPattern pwd then adjustmentFactor * (3 / 10)
             else adjustmentFactor);
          seqPattern = containsSequentialPattern pwd;
          adjustmentFactor =
            (if seqFound seqPattern
             then (let sequentialRatio = real (seqLength seqPattern) / real (length pwd);
                       sequentialPenalty = 4 / 10 + (3 / 10) * (1 - sequentialRatio)
                   in adjustmentFactor * sequentialPenalty)
             else adjustmentFactor);
          adjustmentFactor =
            (if lettersThenDigits 1 pwd
             then (if isLikelyCommonPassword (stripTrailingDigits pwd)
                   then adjustmentFactor * (15 / 100)
                   else adjustmentFactor * (5 / 10))
             else adjustmentFactor);
          adjustmentFactor =
            (if hasUpper pwd \<and> hasLower pwd \<and> hasNumber pwd \<and> hasSymbol pwd
             then (if capitalWordNumberSymbol pwd then adjustmentFactor * (6 / 10)
                   else adjustmentFactor * (12 / 10))
             else adjustmentFactor);
          adjustmentFactor =
            (if length pwd \<ge> 16 then adjustmentFactor * (13 / 10)
             else if length pwd \<le> 8 then adjustmentFactor * (5 / 10)
             else adjustmentFactor)
      in max (5 / 100) adjustmentFactor)"

definition calculateTimeToCrack :: "real \<Rightarrow> bool \<Rightarrow> real \<Rightarrow> string \<Rightarrow> crackTimes" where
  \<comment> \<open>the call of \<open>getCharsetSize\<close>, whose result the source drops, is left out\<close>
  "calculateTimeToCrack e isCommon s pwd =
     (if isCommon
      then \<lparr>online = 1 / 1000, offline = 1 / 10000, optimized = 1 / 100000\<rparr>
      else
        (let scoreRatio = s / 100;
             maxEntropy = 100;
             lengthFactor = (if length pwd \<le> 20 then 1 else 8 / 10);
             effectiveEntropy = min (e * (7 / 10 + (3 / 10) * scoreRatio) * lengthFactor) maxEntropy;
             combinations = 2 powr effectiveEntropy;
             adjustmentFactor = adjustmentFactorOf pwd
         in \<lparr>online = combinations / guessesOnline * adjustmentFactor,
              offline = combinations / guessesOffline * adjustmentFactor,
              optimized = combinations / guessesOptimized * adjustmentFactor\<rparr>))"

section \<open>Formatting a duration\<close>

text \<open>
  \<open>formatTime\<close> tests its argument with \<open>isNaN\<close> and \<open>isFinite\<close>, so here a number is
  NaN, an infinity or a finite value.
\<close>

datatype jsNumber = NaN | PosInfinity | NegInfinity | Finite real

definition formatYears :: "real \<Rightarrow> string" where
  \<comment> \<open>the second half of \<open>formatTime\<close>, from \<open>const years = seconds / 31556952\<close> on\<close>
  "formatYears years =
     (if years < 10 then showInt (jsRound years) @ '' years''
      else if years < 100 then showInt (jsRound (years / 10) * 10) @ '' years''
      else if years < 1000 then showInt (jsRound (years / 100) * 100) @ '' years''
      else if years < 10000 then showInt (jsRound (years / 1000)) @ ''K years''
      else if years < 1000000 then showInt (jsRound (years / 10000) * 10) @ ''K years''
      else ''1M+ years'')"

definition formatSeconds :: "real \<Rightarrow> string" where
  \<comment> \<open>\<open>formatTime\<close> on a finite number\<close>
  "formatSeconds seconds =
     (if seconds < 1 / 1000 then ''Instantly''
      else if seconds < 1 then ''Less than a second''
      else if seconds < 60 then showInt (jsRound seconds) @ '' seconds''
      else if seconds < 3600 then showInt (jsRound (seconds / 60)) @ '' minutes''
      else if seconds < 86400 then showInt (jsRound (seconds / 3600)) @ '' hours''
      else if seconds < 604800 then showInt (jsRound (seconds / 86400)) @ '' days''
      else if seconds < 2629746 then showInt (jsRound (seconds / 604800)) @ '' weeks''
      else if seconds < 31556952 then showInt (jsRound (seconds / 2629746)) @ '' months''
      else formatYears (seconds / 31556952))"

definition formatTime :: "jsNumber \<Rightarrow> string" where
  "formatTime seconds =
     (case seconds of
        Finite s \<Rightarrow> formatSeconds s
      | _ \<Rightarrow> ''Virtually forever'')"

section \<open>Properties of the generator\<close>

lemma randomIndex_range:
  assumes "0 \<le> r" "r < 1" "0 < n"
  shows "0 \<le> randomIndex r n \<and> randomIndex r n < int n"
proof -
  have "0 \<le> r * real n" using assms by simp
  moreover have "r * real n < real n" using assms by simp
  ultimately show ?thesis unfolding randomIndex_def by (simp add: floor_less_iff)
qed

lemma strIndex_pick:
  assumes "0 \<le> r" "r < 1" "s \<noteq> []"
  shows "\<exists>c\<in>set s. strIndex s (randomIndex r (length s)) = [c]"
proof -
  have n: "0 < length s" using assms by simp
  from randomIndex_range [OF assms(1,2) n]
  have "0 \<le> randomIndex r (length s)" "nat (randomIndex r (length s)) < length s" by auto
  then show ?thesis unfolding strIndex_def by auto
qed

lemma digitChar_isDigit: "d < 10 \<Longrightarrow> isDigit (digitChar d)"
proof -
  assume "d < 10"
  then have "d \<in> {0,1,2,3,4,5,6,7,8,9}" by auto
  then show ?thesis by (auto simp: digitChar_def isDigit_def charCode_def)
qed

lemma showInt_digit:
  assumes "0 \<le> i" "i < 10"
  shows "showInt i = [digitChar (nat i)] \<and> isDigit (digitChar (nat i))"
  using assms by (simp add: showInt_def showNat.simps digitChar_isDigit)

lemma pronounceableLoop_Suc:
  "pronounceableLoop rnd (Suc n) = pronounceableStep rnd (pronounceableLoop rnd n) n"
  by (simp add: pronounceableLoop_def)

lemma pronounceableLoop_shape:
  assumes "unitInterval rnd"
  shows "length (pronounceableLoop rnd n) = n \<and>
         (\<forall>i<n. pronounceableLoop rnd n ! i \<in> set (if i mod 2 = 0 then consonants else vowels))"
proof (induction n)
  case 0
  show ?case by (simp add: pronounceableLoop_def)
next
  case (Suc n)
  have r: "0 \<le> rnd n" "rnd n < 1" using assms by (auto simp: unitInterval_def)
  have c: "consonants \<noteq> []" and v: "vowels \<noteq> []" by (simp_all add: consonants_def vowels_def)
  have "\<exists>x. x \<in> set (if n mod 2 = 0 then consonants else vowels) \<and>
      pronounceableStep rnd (pronounceableLoop rnd n) n = pronounceableLoop rnd n @ [x]"
  proof (cases "n mod 2 = 0")
    case True
    then show ?thesis using strIndex_pick [OF r c] by (auto simp: pronounceableStep_def)
  next
    case False
    then show ?thesis using strIndex_pick [OF r v] by (auto simp: pronounceableStep_def)
  qed
  then obtain x where x: "x \<in> set (if n mod 2 = 0 then consonants else vowels)"
      "pronounceableStep rnd (pronounceableLoop rnd n) n = pronounceableLoop rnd n @ [x]"
    by blast
  show ?case using Suc x
    by (auto simp: pronounceableLoop_Suc nth_append less_Suc_eq)
qed

lemma charsetLoop_Suc:
  "charsetLoop rnd cs (Suc n) = charsetStep rnd cs (charsetLoop rnd cs n) n"
  by (simp add: charsetLoop_def)

lemma charsetLoop_shape:
  assumes "unitInterval rnd" "cs \<noteq> []"
  shows "length (charsetLoop rnd cs n) = n \<and> set (charsetLoop rnd cs n) \<subseteq> set cs"
proof (induction n)
  case 0
  show ?case by (simp add: charsetLoop_def)
next
  case (Suc n)
  have r: "0 \<le> rnd n" "rnd n < 1" using assms by (auto simp: unitInterval_def)
  obtain x where x: "x \<in> set cs" "charsetStep rnd cs (charsetLoop rnd cs n) n = charsetLoop rnd cs n @ [x]"
    using strIndex_pick [OF r assms(2)] by (auto simp: charsetStep_def)
  show ?case using Suc x by (auto simp: charsetLoop_Suc)
qed

lemma ceil_half: "nat \<lceil>real L / 2\<rceil> = (L + 1) div 2"
  by linarith


lemma set_buildCharset:
  "c \<in> set (buildCharset gs) \<longleftrightarrow>
     ((includeLowercase gs \<and> c \<in> set lowercaseRange) \<or>
      (includeUppercase gs \<and> c \<in> set uppercaseRange) \<or>
      (includeNumbers gs \<and> c \<in> set numberRange) \<or>
      (includeSymbols gs \<and> c \<in> set symbolRange)) \<and>
     (excludeSimilar gs \<longrightarrow> c \<notin> set similarChars)"
  by (auto simp: buildCharset_def Let_def)

lemma unitInterval_constantSource: "0 \<le> r \<Longrightarrow> r < 1 \<Longrightarrow> unitInterval (constantSource r)"
  by (simp add: unitInterval_def constantSource_def)

lemma unitInterval_cyclicSource: "0 < m \<Longrightarrow> unitInterval (cyclicSource m)"
  by (simp add: unitInterval_def cyclicSource_def)

lemma generatePassword_charset_length:
  assumes "unitInterval rnd" "\<not> pronounceable gs" "generatePassword gs rnd = Some out"
  shows "length out = lengthSetting gs"
  using assms charsetLoop_shape [of rnd "buildCharset gs" "lengthSetting gs"]
  by (auto simp: generatePassword_def Let_def split: if_splits)

lemma consonants_vowels_lower:
  "c \<in> set consonants \<or> c \<in> set vowels \<Longrightarrow> isLower c"
  by (auto simp: consonants_def vowels_def isLower_def charCode_def)

lemma lower_not_upper: "isLower c \<Longrightarrow> \<not> isUpper c"
  by (simp add: isLower_def isUpper_def)

lemma digit_not_upper: "isDigit c \<Longrightarrow> \<not> isUpper c"
  by (simp add: isDigit_def isUpper_def)

lemma pronounceableSymbols_not_upper: "c \<in> set pronounceableSymbols \<Longrightarrow> \<not> isUpper c"
  by (auto simp: pronounceableSymbols_def isUpper_def charCode_def)

text \<open>
  In pronounceable mode the result is the letters of the loop, then at most one digit,
  then at most one symbol; the final \<open>slice\<close> never removes anything.
\<close>

lemma generatePassword_pronounceable_unfold:
  assumes "pronounceable gs"
  shows "generatePassword gs rnd =
     (let n = (lengthSetting gs + 1) div 2;
          letters = pronounceableLoop rnd n;
          withNumber = (includeNumbers gs \<and> length letters < lengthSetting gs);
          d = (if withNumber then showInt (randomIndex (rnd n) 10) else []);
          k = (if withNumber then n + 1 else n);
          s = (if includeSymbols gs \<and> length (letters @ d) < lengthSetting gs
               then strIndex pronounceableSymbols (randomIndex (rnd k) 5) else [])
      in Some (take (lengthSetting gs) (letters @ d @ s)))"
  using assms by (simp add: generatePassword_def Let_def ceil_half)

lemma generatePassword_pronounceable_parts:
  assumes "unitInterval rnd" "pronounceable gs"
  shows "\<exists>d s. generatePassword gs rnd =
            Some (pronounceableLoop rnd ((lengthSetting gs + 1) div 2) @ d @ s) \<and>
          (d = [] \<or> (includeNumbers gs \<and> (\<exists>x. d = [x] \<and> isDigit x))) \<and>
          (s = [] \<or> (includeSymbols gs \<and> (\<exists>y\<in>set pronounceableSymbols. s = [y]))) \<and>
          (lengthSetting gs + 1) div 2 + length d + length s \<le> lengthSetting gs"
proof -
  define L where "L = lengthSetting gs"
  define n where "n = (L + 1) div 2"
  define letters where "letters = pronounceableLoop rnd n"
  define withNumber where "withNumber = (includeNumbers gs \<and> length letters < L)"
  define d where "d = (if withNumber then showInt (randomIndex (rnd n) 10) else [])"
  define k where "k = (if withNumber then n + 1 else n)"
  define withSymbol where "withSymbol = (includeSymbols gs \<and> length (letters @ d) < L)"
  define s where "s = (if withSymbol
      then strIndex pronounceableSymbols (randomIndex (rnd k) 5) else [])"
  have len: "length letters = n"
    using pronounceableLoop_shape [OF assms(1), of n] by (simp add: letters_def)
  have rn: "0 \<le> rnd n" "rnd n < 1" and rk: "0 \<le> rnd k" "rnd k < 1"
    using assms(1) by (auto simp: unitInterval_def)
  have dig: "withNumber \<Longrightarrow> \<exists>x. d = [x] \<and> isDigit x"
    using randomIndex_range [OF rn, of 10] showInt_digit [of "randomIndex (rnd n) 10"]
    by (auto simp: d_def)
  have sym: "withSymbol \<Longrightarrow> \<exists>y\<in>set pronounceableSymbols. s = [y]"
  proof -
    assume w: withSymbol
    have ne: "pronounceableSymbols \<noteq> []" and l5: "length pronounceableSymbols = 5"
      by (simp_all add: pronounceableSymbols_def)
    from strIndex_pick [OF rk ne] w show ?thesis
      unfolding l5 s_def by simp
  qed
  have dlen: "length d = (if withNumber then 1 else 0)"
    using dig by (auto simp: d_def)
  have slen: "length s = (if withSymbol then 1 else 0)"
    using sym by (auto simp: s_def)
  have fits: "n + length d + length s \<le> L"
    unfolding slen withSymbol_def by (auto simp: dlen withNumber_def len n_def)
  have "generatePassword gs rnd = Some (take L (letters @ d @ s))"
    unfolding generatePassword_pronounceable_unfold [OF assms(2)] Let_def
      s_def withSymbol_def k_def d_def withNumber_def letters_def n_def L_def ..
  then have "generatePassword gs rnd = Some (letters @ d @ s)"
    using fits len by simp
  moreover have "d = [] \<or> (includeNumbers gs \<and> (\<exists>x. d = [x] \<and> isDigit x))"
    using dig by (auto simp: d_def withNumber_def)
  moreover have "s = [] \<or> (includeSymbols gs \<and> (\<exists>y\<in>set pronounceableSymbols. s = [y]))"
    using sym by (auto simp: s_def withSymbol_def)
  ultimately show ?thesis
    using fits unfolding letters_def n_def L_def by blast
qed

lemma generatePassword_pronounceable_length:
  assumes "unitInterval rnd" "pronounceable gs" "generatePassword gs rnd = Some out"
  shows "length out \<le> (lengthSetting gs + 1) div 2 + 2"
proof -
  obtain d s where ds:
      "generatePassword gs rnd = Some (pronounceableLoop rnd ((lengthSetting gs + 1) div 2) @ d @ s)"
      "d = [] \<or> (includeNumbers gs \<and> (\<exists>x. d = [x] \<and> isDigit x))"
      "s = [] \<or> (includeSymbols gs \<and> (\<exists>y\<in>set pronounceableSymbols. s = [y]))"
    using generatePassword_pronounceable_parts [OF assms(1,2)] by blast
  have "length d \<le> 1" "length s \<le> 1" using ds(2,3) by auto
  moreover have "length (pronounceableLoop rnd ((lengthSetting gs + 1) div 2)) =
      (lengthSetting gs + 1) div 2"
    using pronounceableLoop_shape [OF assms(1)] by simp
  ultimately show ?thesis using ds(1) assms(3) by auto
qed

lemma generatePassword_pronounceable_shorter:
  assumes "unitInterval rnd" "pronounceable gs" "6 \<le> lengthSetting gs"
    and "generatePassword gs rnd = Some out"
  shows "length out < lengthSetting gs"
  using generatePassword_pronounceable_length [OF assms(1,2,4)] assms(3) by linarith

text \<open>
  Claim C2 (generator length contract). The claim asks for exactly \<open>config.length\<close>
  characters in every mode. In pronounceable mode the loop runs \<open>ceil(length / 2)\<close> times
  and appends one character each time, so with the initial settings and the pronounceable
  flag set (length 16, every class enabled) the result has 10 characters: eight letters, one
  digit, one symbol. The lemma before this one gives the same for every random source and
  every length from 6 on; without the flag the length is exact
  (\<open>generatePassword_charset_length\<close>).
\<close>

theorem generatePassword_pronounceable_too_short:
  "lengthSetting pronounceableSettings = 16 \<and>
   generatePassword pronounceableSettings (constantSource 0) = Some ''babababa0!'' \<and>
   map_option length (generatePassword pronounceableSettings (constantSource 0)) = Some 10"
  by code_simp

text \<open>
  Claim C6 (empty charset), as amended. With pronounceable off and every include flag off
  the charset is empty and \<open>generatePassword\<close> returns before it calls
  \<open>setGeneratedPassword\<close>: no string is produced, the empty one neither, and the generated
  password of the component keeps the value it had.
\<close>

theorem generatePassword_empty_charset_keeps_state:
  assumes "\<not> pronounceable gs" "\<not> includeUppercase gs" "\<not> includeLowercase gs"
    "\<not> includeNumbers gs" "\<not> includeSymbols gs"
  shows "buildCharset gs = [] \<and> generatePassword gs rnd = None \<and>
         generatedPasswordAfter old gs rnd = old"
  using assms by (simp add: generatedPasswordAfter_def generatePassword_def buildCharset_def)

theorem generatePassword_empty_charset_keeps_state_witness:
  "\<not> pronounceable emptySettings \<and> \<not> includeUppercase emptySettings \<and>
   \<not> includeLowercase emptySettings \<and> \<not> includeNumbers emptySettings \<and>
   \<not> includeSymbols emptySettings \<and>
   buildCharset emptySettings = [] \<and> generatePassword emptySettings (cyclicSource 7) = None \<and>
   generatedPasswordAfter ''Tr0ub4dor&3'' emptySettings (cyclicSource 7) = ''Tr0ub4dor&3''"
proof -
  have h: "\<not> pronounceable emptySettings" "\<not> includeUppercase emptySettings"
    "\<not> includeLowercase emptySettings" "\<not> includeNumbers emptySettings"
    "\<not> includeSymbols emptySettings"
    by (simp_all add: emptySettings_def)
  from generatePassword_empty_charset_keeps_state [OF h, of "cyclicSource 7" "''Tr0ub4dor&3''"] h
  show ?thesis by simp
qed

text \<open>
  The claim C6 as stated fails: after a run with the empty settings the generated password
  is not the empty string when it was not empty before, and no empty string is set.
\<close>

theorem generatePassword_empty_charset_counterexample:
  "generatePassword emptySettings (constantSource 0) \<noteq> Some [] \<and>
   generatedPasswordAfter ''Tr0ub4dor&3'' emptySettings (constantSource 0) \<noteq> []"
  by (simp add: generatedPasswordAfter_def generatePassword_def buildCharset_def
      emptySettings_def)

text \<open>
  Claim C8 (generator charset containment). Without the pronounceable flag, every character
  of the generated string lies in the range of an enabled include flag, and is none of the
  look-alike characters \<open>i l 1 L o 0 O\<close> when \<open>excludeSimilar\<close> is set.
\<close>

theorem generatePassword_charset_containment:
  assumes "unitInterval rnd" "\<not> pronounceable gs" "generatePassword gs rnd = Some out"
    "c \<in> set out"
  shows "((includeLowercase gs \<and> c \<in> set lowercaseRange) \<or>
          (includeUppercase gs \<and> c \<in> set uppercaseRange) \<or>
          (includeNumbers gs \<and> c \<in> set numberRange) \<or>
          (includeSymbols gs \<and> c \<in> set symbolRange)) \<and>
         (excludeSimilar gs \<longrightarrow> c \<notin> set similarChars)"
proof -
  have ne: "buildCharset gs \<noteq> []"
    and out: "out = charsetLoop rnd (buildCharset gs) (lengthSetting gs)"
    using assms(2,3) by (auto simp: generatePassword_def Let_def split: if_splits)
  have "set out \<subseteq> set (buildCharset gs)"
    using charsetLoop_shape [OF assms(1) ne] out by simp
  then have "c \<in> set (buildCharset gs)" using assms(4) by blast
  then show ?thesis using set_buildCharset [of c gs] by blast
qed

theorem generatePassword_charset_containment_witness:
  "unitInterval (cyclicSource 7) \<and> \<not> pronounceable noSimilarSettings \<and>
   generatePassword noSimilarSettings (cyclicSource 7) = Some ''anAMZ#[a'' \<and>
   CHR ''M'' \<in> set ''anAMZ#[a'' \<and>
   ((includeLowercase noSimilarSettings \<and> CHR ''M'' \<in> set lowercaseRange) \<or>
    (includeUppercase noSimilarSettings \<and> CHR ''M'' \<in> set uppercaseRange) \<or>
    (includeNumbers noSimilarSettings \<and> CHR ''M'' \<in> set numberRange) \<or>
    (includeSymbols noSimilarSettings \<and> CHR ''M'' \<in> set symbolRange)) \<and>
   excludeSimilar noSimilarSettings \<and> CHR ''M'' \<notin> set similarChars"
proof -
  have e: "excludeSimilar noSimilarSettings"
    by (simp add: noSimilarSettings_def defaultSettings_def)
  have u: "unitInterval (cyclicSource 7)" by (simp add: unitInterval_cyclicSource)
  have p: "\<not> pronounceable noSimilarSettings"
    by (simp add: noSimilarSettings_def defaultSettings_def)
  have g: "generatePassword noSimilarSettings (cyclicSource 7) = Some ''anAMZ#[a''"
    by code_simp
  have m: "CHR ''M'' \<in> set ''anAMZ#[a''" by simp
  from generatePassword_charset_containment [OF u p g m] u p g m e
  show ?thesis by blast
qed

text \<open>
  Claim C10 (pronounceable mode). With the pronounceable flag the result is a run of
  lowercase letters, a consonant at every even position and a vowel at every odd one, then
  at most one digit, then at most one of the symbols \<open>!@#$%\<close>; no character of it is an
  uppercase letter; and the flags \<open>includeUppercase\<close>, \<open>includeLowercase\<close> and
  \<open>excludeSimilar\<close> have no effect on it.
\<close>

theorem generatePassword_pronounceable_shape:
  assumes "unitInterval rnd" "pronounceable gs"
  shows "\<exists>letters d s.
           generatePassword gs rnd = Some (letters @ d @ s) \<and>
           (\<forall>i<length letters.
              letters ! i \<in> set (if i mod 2 = 0 then consonants else vowels)) \<and>
           (\<forall>x\<in>set letters. isLower x) \<and>
           (d = [] \<or> (\<exists>x. d = [x] \<and> isDigit x)) \<and>
           (s = [] \<or> (\<exists>y\<in>set pronounceableSymbols. s = [y])) \<and>
           (\<forall>x\<in>set (letters @ d @ s). \<not> isUpper x) \<and>
           generatePassword
             (gs\<lparr>includeUppercase := u, includeLowercase := l, excludeSimilar := e\<rparr>) rnd =
           generatePassword gs rnd"
proof -
  define n where "n = (lengthSetting gs + 1) div 2"
  define letters where "letters = pronounceableLoop rnd n"
  obtain d s where ds:
      "generatePassword gs rnd = Some (letters @ d @ s)"
      "d = [] \<or> (includeNumbers gs \<and> (\<exists>x. d = [x] \<and> isDigit x))"
      "s = [] \<or> (includeSymbols gs \<and> (\<exists>y\<in>set pronounceableSymbols. s = [y]))"
    using generatePassword_pronounceable_parts [OF assms] unfolding letters_def n_def by blast
  have shape: "length letters = n"
      "\<forall>i<n. letters ! i \<in> set (if i mod 2 = 0 then consonants else vowels)"
    using pronounceableLoop_shape [OF assms(1), of n] by (simp_all add: letters_def)
  have alt: "\<forall>i<length letters.
      letters ! i \<in> set (if i mod 2 = 0 then consonants else vowels)"
    using shape by simp
  have low: "\<forall>x\<in>set letters. isLower x"
  proof
    fix x assume "x \<in> set letters"
    then obtain i where "i < length letters" "x = letters ! i"
      by (auto simp: in_set_conv_nth)
    with alt have "x \<in> set consonants \<or> x \<in> set vowels"
      by (auto split: if_splits)
    then show "isLower x" by (rule consonants_vowels_lower)
  qed
  have noup: "\<forall>x\<in>set (letters @ d @ s). \<not> isUpper x"
    using low ds(2,3)
    by (auto dest: lower_not_upper digit_not_upper pronounceableSymbols_not_upper)
  have same: "generatePassword
      (gs\<lparr>includeUppercase := u, includeLowercase := l, excludeSimilar := e\<rparr>) rnd =
      generatePassword gs rnd"
    using assms(2) by (simp add: generatePassword_def)
  from ds alt low noup same show ?thesis by blast
qed

theorem generatePassword_pronounceable_shape_witness:
  "unitInterval (cyclicSource 7) \<and> pronounceable pronounceableSettings \<and>
   (\<exists>letters d s.
      generatePassword pronounceableSettings (cyclicSource 7) = Some (letters @ d @ s) \<and>
      (\<forall>i<length letters.
         letters ! i \<in> set (if i mod 2 = 0 then consonants else vowels)) \<and>
      (\<forall>x\<in>set letters. isLower x) \<and>
      (d = [] \<or> (\<exists>x. d = [x] \<and> isDigit x)) \<and>
      (s = [] \<or> (\<exists>y\<in>set pronounceableSymbols. s = [y])) \<and>
      (\<forall>x\<in>set (letters @ d @ s). \<not> isUpper x) \<and>
      generatePassword
        (pronounceableSettings\<lparr>includeUppercase := False, includeLowercase := False,
           excludeSimilar := True\<rparr>) (cyclicSource 7) =
      generatePassword pronounceableSettings (cyclicSource 7)) \<and>
   generatePassword pronounceableSettings (cyclicSource 7) = Some ''bahipowa1@''"
proof -
  have u: "unitInterval (cyclicSource 7)" by (simp add: unitInterval_cyclicSource)
  have p: "pronounceable pronounceableSettings"
    by (simp add: pronounceableSettings_def)
  have g: "generatePassword pronounceableSettings (cyclicSource 7) = Some ''bahipowa1@''"
    by code_simp
  from generatePassword_pronounceable_shape [OF u p, where u = False and l = False and e = True] u p g
  show ?thesis by blast
qed

section \<open>Properties of the classifier\<close>

lemma length_toLowerCase: "length (toLowerCase s) = length s"
  by (simp add: toLowerCase_def)

lemma category_words_length:
  "list_all (\<lambda>category. list_all (\<lambda>w. 3 \<le> length w) (snd category)) COMMON_WORDS_CATEGORIES"
  by code_simp

lemma other_words_length: "list_all (\<lambda>w. 3 \<le> length w) OTHER_COMMON_WORDS"
  by code_simp

lemma prefixes_length: "list_all (\<lambda>w. 3 \<le> length w) COMMON_PREFIXES"
  by code_simp

lemma startsWith_length: "startsWith s p \<Longrightarrow> length p \<le> length s"
proof -
  assume "startsWith s p"
  then have "length (take (length p) s) = length p" by (simp add: startsWith_def)
  then show ?thesis by simp
qed

lemma knownCommonWord_length:
  assumes "knownCommonWord w"
  shows "3 \<le> length w"
proof -
  from assms consider
      (cat) category where "category \<in> set COMMON_WORDS_CATEGORIES" "w \<in> set (snd category)"
    | (other) "w \<in> set OTHER_COMMON_WORDS"
    | (pre) prefix where "prefix \<in> set COMMON_PREFIXES" "startsWith w prefix"
    by (auto simp: knownCommonWord_def list_ex_iff)
  then show ?thesis
  proof cases
    case cat
    then show ?thesis using category_words_length by (auto simp: list_all_iff)
  next
    case other
    then show ?thesis using other_words_length by (auto simp: list_all_iff)
  next
    case pre
    then have "3 \<le> length prefix" using prefixes_length by (auto simp: list_all_iff)
    then show ?thesis using startsWith_length [OF pre(2)] by simp
  qed
qed

text \<open>
  Claim C4 (\<open>isCommonWord\<close>). A word shorter than 3 characters gives \<open>false\<close>; a word whose
  lowercase form is in a dictionary category or in the other common words, or starts with a
  common prefix, gives \<open>true\<close>; any other word gives 0.7 up to length 5, \<open>false\<close> from
  length 8 on, and 0.4 at lengths 6 and 7.
\<close>

theorem isCommonWord_cases:
  "(length word < 3 \<longrightarrow> isCommonWord word = IsFalse) \<and>
   (knownCommonWord (toLowerCase word) \<longrightarrow> isCommonWord word = IsTrue) \<and>
   (3 \<le> length word \<and> \<not> knownCommonWord (toLowerCase word) \<longrightarrow>
      (length word \<le> 5 \<longrightarrow> isCommonWord word = Chance (7 / 10)) \<and>
      (8 \<le> length word \<longrightarrow> isCommonWord word = IsFalse) \<and>
      (length word = 6 \<or> length word = 7 \<longrightarrow> isCommonWord word = Chance (4 / 10)))"
proof (intro conjI impI)
  assume "length word < 3"
  then show "isCommonWord word = IsFalse" by (simp add: isCommonWord_def)
next
  assume k: "knownCommonWord (toLowerCase word)"
  from knownCommonWord_length [OF k] have "3 \<le> length word"
    by (simp add: length_toLowerCase)
  then have "word \<noteq> []" "\<not> length word < 3" by auto
  then show "isCommonWord word = IsTrue"
    using k by (auto simp: isCommonWord_def knownCommonWord_def Let_def)
next
  assume a: "3 \<le> length word \<and> \<not> knownCommonWord (toLowerCase word)" and "length word \<le> 5"
  then show "isCommonWord word = Chance (7 / 10)"
    by (auto simp: isCommonWord_def knownCommonWord_def Let_def length_toLowerCase)
next
  assume a: "3 \<le> length word \<and> \<not> knownCommonWord (toLowerCase word)" and "8 \<le> length word"
  then show "isCommonWord word = IsFalse"
    by (auto simp: isCommonWord_def knownCommonWord_def Let_def length_toLowerCase)
next
  assume a: "3 \<le> length word \<and> \<not> knownCommonWord (toLowerCase word)"
    and "length word = 6 \<or> length word = 7"
  then show "isCommonWord word = Chance (4 / 10)"
    by (auto simp: isCommonWord_def knownCommonWord_def Let_def length_toLowerCase)
qed

theorem isCommonWord_cases_witness:
  "length ''ab'' < 3 \<and> isCommonWord ''ab'' = IsFalse \<and>
   knownCommonWord (toLowerCase ''Pizza'') \<and> isCommonWord ''Pizza'' = IsTrue \<and>
   knownCommonWord (toLowerCase ''Secret'') \<and> isCommonWord ''Secret'' = IsTrue \<and>
   knownCommonWord (toLowerCase ''ADMINxyz'') \<and> isCommonWord ''ADMINxyz'' = IsTrue \<and>
   3 \<le> length ''zzqqj'' \<and> \<not> knownCommonWord (toLowerCase ''zzqqj'') \<and>
   length ''zzqqj'' \<le> 5 \<and> isCommonWord ''zzqqj'' = Chance (7 / 10) \<and>
   3 \<le> length ''zzqqjxxx'' \<and> \<not> knownCommonWord (toLowerCase ''zzqqjxxx'') \<and>
   8 \<le> length ''zzqqjxxx'' \<and> isCommonWord ''zzqqjxxx'' = IsFalse \<and>
   3 \<le> length ''zzqqjx'' \<and> \<not> knownCommonWord (toLowerCase ''zzqqjx'') \<and>
   length ''zzqqjx'' = 6 \<and> isCommonWord ''zzqqjx'' = Chance (4 / 10)"
proof -
  have k1: "knownCommonWord (toLowerCase ''Pizza'')" by code_simp
  have k2: "knownCommonWord (toLowerCase ''Secret'')" by code_simp
  have k3: "knownCommonWord (toLowerCase ''ADMINxyz'')" by code_simp
  have n1: "\<not> knownCommonWord (toLowerCase ''zzqqj'')" by code_simp
  have n2: "\<not> knownCommonWord (toLowerCase ''zzqqjxxx'')" by code_simp
  have n3: "\<not> knownCommonWord (toLowerCase ''zzqqjx'')" by code_simp
  have r0: "isCommonWord ''ab'' = IsFalse"
    using isCommonWord_cases [of "''ab''"] by simp
  have r1: "isCommonWord ''Pizza'' = IsTrue"
    using isCommonWord_cases [of "''Pizza''"] k1 by blast
  have r2: "isCommonWord ''Secret'' = IsTrue"
    using isCommonWord_cases [of "''Secret''"] k2 by blast
  have r3: "isCommonWord ''ADMINxyz'' = IsTrue"
    using isCommonWord_cases [of "''ADMINxyz''"] k3 by blast
  have r4: "isCommonWord ''zzqqj'' = Chance (7 / 10)"
    using isCommonWord_cases [of "''zzqqj''"] n1 by simp
  have r5: "isCommonWord ''zzqqjxxx'' = IsFalse"
    using isCommonWord_cases [of "''zzqqjxxx''"] n2 by simp
  have r6: "isCommonWord ''zzqqjx'' = Chance (4 / 10)"
    using isCommonWord_cases [of "''zzqqjx''"] n3 by simp
  show ?thesis using k1 k2 k3 n1 n2 n3 r0 r1 r2 r3 r4 r5 r6 by simp
qed

section \<open>Properties of the duration format\<close>

text \<open>
  Claim C5 (\<open>formatTime\<close>), as amended. NaN and the infinities give
  \<open>Virtually forever\<close>; below one millisecond \<open>Instantly\<close>, below one second
  \<open>Less than a second\<close>; then rounded seconds, minutes, hours, days, weeks and months
  with the bounds 60, 3600, 86400, 604800, 2629746 and 31556952 seconds. From one year
  (31556952 seconds) on: the nearest year below 10 years, the nearest 10 below 100, the
  nearest 100 below 1000; the suffix \<open>K years\<close> starts at 1000 years, with the nearest
  thousand below 10000 years and the nearest ten thousand below 1000000 years; from 1000000
  years on the text is \<open>1M+ years\<close>.
\<close>

theorem formatTime_buckets:
  "formatTime NaN = ''Virtually forever'' \<and>
   formatTime PosInfinity = ''Virtually forever'' \<and>
   formatTime NegInfinity = ''Virtually forever'' \<and>
   (s < 1 / 1000 \<longrightarrow> formatTime (Finite s) = ''Instantly'') \<and>
   (1 / 1000 \<le> s \<and> s < 1 \<longrightarrow> formatTime (Finite s) = ''Less than a second'') \<and>
   (1 \<le> s \<and> s < 60 \<longrightarrow> formatTime (Finite s) = showInt (jsRound s) @ '' seconds'') \<and>
   (60 \<le> s \<and> s < 3600 \<longrightarrow>
      formatTime (Finite s) = showInt (jsRound (s / 60)) @ '' minutes'') \<and>
   (3600 \<le> s \<and> s < 86400 \<longrightarrow>
      formatTime (Finite s) = showInt (jsRound (s / 3600)) @ '' hours'') \<and>
   (86400 \<le> s \<and> s < 604800 \<longrightarrow>
      formatTime (Finite s) = showInt (jsRound (s / 86400)) @ '' days'') \<and>
   (604800 \<le> s \<and> s < 2629746 \<longrightarrow>
      formatTime (Finite s) = showInt (jsRound (s / 604800)) @ '' weeks'') \<and>
   (2629746 \<le> s \<and> s < 31556952 \<longrightarrow>
      formatTime (Finite s) = showInt (jsRound (s / 2629746)) @ '' months'') \<and>
   (31556952 \<le> s \<and> s < 10 * 31556952 \<longrightarrow>
      formatTime (Finite s) = showInt (jsRound (s / 31556952)) @ '' years'') \<and>
   (10 * 31556952 \<le> s \<and> s < 100 * 31556952 \<longrightarrow>
      formatTime (Finite s) = showInt (jsRound (s / 31556952 / 10) * 10) @ '' years'') \<and>
   (100 * 31556952 \<le> s \<and> s < 1000 * 31556952 \<longrightarrow>
      formatTime (Finite s) = showInt (jsRound (s / 31556952 / 100) * 100) @ '' years'') \<and>
   (1000 * 31556952 \<le> s \<and> s < 10000 * 31556952 \<longrightarrow>
      formatTime (Finite s) = showInt (jsRound (s / 31556952 / 1000)) @ ''K years'') \<and>
   (10000 * 31556952 \<le> s \<and> s < 1000000 * 31556952 \<longrightarrow>
      formatTime (Finite s) = showInt (jsRound (s / 31556952 / 10000) * 10) @ ''K years'') \<and>
   (1000000 * 31556952 \<le> s \<longrightarrow> formatTime (Finite s) = ''1M+ years'')"
  by (simp add: formatTime_def formatSeconds_def formatYears_def)

theorem formatTime_buckets_witness:
  "(1 / 2000 :: real) < 1 / 1000 \<and>
   formatTime (Finite (1 / 2000)) = ''Instantly'' \<and>
   (1 / 1000 :: real) \<le> 1 / 2 \<and> (1 / 2 :: real) < 1 \<and>
   formatTime (Finite (1 / 2)) = ''Less than a second'' \<and>
   (1::real) \<le> 42 \<and> (42::real) < 60 \<and>
   formatTime (Finite (42)) = ''42 seconds'' \<and>
   (60::real) \<le> 96 \<and> (96::real) < 3600 \<and>
   formatTime (Finite (96)) = ''2 minutes'' \<and>
   (3600::real) \<le> 7200 \<and> (7200::real) < 86400 \<and>
   formatTime (Finite (7200)) = ''2 hours'' \<and>
   (86400::real) \<le> 172800 \<and> (172800::real) < 604800 \<and>
   formatTime (Finite (172800)) = ''2 days'' \<and>
   (604800::real) \<le> 1209600 \<and> (1209600::real) < 2629746 \<and>
   formatTime (Finite (1209600)) = ''2 weeks'' \<and>
   (2629746::real) \<le> 5259492 \<and> (5259492::real) < 31556952 \<and>
   formatTime (Finite (5259492)) = ''2 months'' \<and>
   (31556952::real) \<le> 3 * 31556952 \<and> (3 * 31556952 :: real) < 10 * 31556952 \<and>
   formatTime (Finite (3 * 31556952)) = ''3 years'' \<and>
   (10 * 31556952 :: real) \<le> 14 * 31556952 \<and> (14 * 31556952 :: real) < 100 * 31556952 \<and>
   formatTime (Finite (14 * 31556952)) = ''10 years'' \<and>
   (100 * 31556952 :: real) \<le> 960 * 31556952 \<and> (960 * 31556952 :: real) < 1000 * 31556952 \<and>
   formatTime (Finite (960 * 31556952)) = ''1000 years'' \<and>
   (1000 * 31556952 :: real) \<le> 5000 * 31556952 \<and> (5000 * 31556952 :: real) < 10000 * 31556952 \<and>
   formatTime (Finite (5000 * 31556952)) = ''5K years'' \<and>
   (10000 * 31556952 :: real) \<le> 123456 * 31556952 \<and> (123456 * 31556952 :: real) < 1000000 * 31556952 \<and>
   formatTime (Finite (123456 * 31556952)) = ''120K years'' \<and>
   (1000000 * 31556952 :: real) \<le> 2000000 * 31556952 \<and>
   formatTime (Finite (2000000 * 31556952)) = ''1M+ years''"
proof -
  have r0: "formatTime (Finite (1 / 2000)) = ''Instantly''"
    using formatTime_buckets [of "1 / 2000"] by simp
  have r1: "formatTime (Finite (1 / 2)) = ''Less than a second''"
    using formatTime_buckets [of "1 / 2"] by simp
  have r2: "formatTime (Finite (42)) = ''42 seconds''"
  proof -
    from formatTime_buckets [of "42"]
    have "formatTime (Finite (42)) = showInt (jsRound 42) @ '' seconds''"
      by simp
    moreover have "showInt (jsRound 42) @ '' seconds'' = ''42 seconds''"
      by code_simp
    ultimately show ?thesis by simp
  qed
  have r3: "formatTime (Finite (96)) = ''2 minutes''"
  proof -
    from formatTime_buckets [of "96"]
    have "formatTime (Finite (96)) = showInt (jsRound (96 / 60)) @ '' minutes''"
      by simp
    moreover have "showInt (jsRound (96 / 60)) @ '' minutes'' = ''2 minutes''"
      by code_simp
    ultimately show ?thesis by simp
  qed
  have r4: "formatTime (Finite (7200)) = ''2 hours''"
  proof -
    from formatTime_buckets [of "7200"]
    have "formatTime (Finite (7200)) = showInt (jsRound (7200 / 3600)) @ '' hours''"
      by simp
    moreover have "showInt (jsRound (7200 / 3600)) @ '' hours'' = ''2 hours''"
      by code_simp
    ultimately show ?thesis by simp
  qed
  have r5: "formatTime (Finite (172800)) = ''2 days''"
  proof -
    from formatTime_buckets [of "172800"]
    have "formatTime (Finite (172800)) = showInt (jsRound (172800 / 86400)) @ '' days''"
      by simp
    moreover have "showInt (jsRound (172800 / 86400)) @ '' days'' = ''2 days''"
      by code_simp
    ultimately show ?thesis by simp
  qed
  have r6: "formatTime (Finite (1209600)) = ''2 weeks''"
  proof -
    from formatTime_buckets [of "1209600"]
    have "formatTime (Finite (1209600)) = showInt (jsRound (1209600 / 604800)) @ '' weeks''"
      by simp
    moreover have "showInt (jsRound (1209600 / 604800)) @ '' weeks'' = ''2 weeks''"
      by code_simp
    ultimately show ?thesis by simp
  qed
  have r7: "formatTime (Finite (5259492)) = ''2 months''"
  proof -
    from formatTime_buckets [of "5259492"]
    have "formatTime (Finite (5259492)) = showInt (jsRound (5259492 / 2629746)) @ '' months''"
      by simp
    moreover have "showInt (jsRound (5259492 / 2629746)) @ '' months'' = ''2 months''"
      by code_simp
    ultimately show ?thesis by simp
  qed
  have r8: "formatTime (Finite (3 * 31556952)) = ''3 years''"
  proof -
    from formatTime_buckets [of "3 * 31556952"]
    have "formatTime (Finite (3 * 31556952)) = showInt (jsRound (3 * 31556952 / 31556952)) @ '' years''"
      by simp
    moreover have "showInt (jsRound (3 * 31556952 / 31556952)) @ '' years'' = ''3 years''"
      by code_simp
    ultimately show ?thesis by simp
  qed
  have r9: "formatTime (Finite (14 * 31556952)) = ''10 years''"
  proof -
    from formatTime_buckets [of "14 * 31556952"]
    have "formatTime (Finite (14 * 31556952)) = showInt (jsRound (14 * 31556952 / 31556952 / 10) * 10) @ '' years''"
      by simp
    moreover have "showInt (jsRound (14 * 31556952 / 31556952 / 10) * 10) @ '' years'' = ''10 years''"
      by code_simp
    ultimately show ?thesis by simp
  qed
  have r10: "formatTime (Finite (960 * 31556952)) = ''1000 years''"
  proof -
    from formatTime_buckets [of "960 * 31556952"]
    have "formatTime (Finite (960 * 31556952)) = showInt (jsRound (960 * 31556952 / 31556952 / 100) * 100) @ '' years''"
      by simp
    moreover have "showInt (jsRound (960 * 31556952 / 31556952 / 100) * 100) @ '' years'' = ''1000 years''"
      by code_simp
    ultimately show ?thesis by simp
  qed
  have r11: "formatTime (Finite (5000 * 31556952)) = ''5K years''"
  proof -
    from formatTime_buckets [of "5000 * 31556952"]
    have "formatTime (Finite (5000 * 31556952)) = showInt (jsRound (5000 * 31556952 / 31556952 / 1000)) @ ''K years''"
      by simp
    moreover have "showInt (jsRound (5000 * 31556952 / 31556952 / 1000)) @ ''K years'' = ''5K years''"
      by code_simp
    ultimately show ?thesis by simp
  qed
  have r12: "formatTime (Finite (123456 * 31556952)) = ''120K years''"
  proof -
    from formatTime_buckets [of "123456 * 31556952"]
    have "formatTime (Finite (123456 * 31556952)) = showInt (jsRound (123456 * 31556952 / 31556952 / 10000) * 10) @ ''K years''"
      by simp
    moreover have "showInt (jsRound (123456 * 31556952 / 31556952 / 10000) * 10) @ ''K years'' = ''120K years''"
      by code_simp
    ultimately show ?thesis by simp
  qed
  have r13: "formatTime (Finite (2000000 * 31556952)) = ''1M+ years''"
    using formatTime_buckets [of "2000000 * 31556952"] by simp
  show ?thesis using r0 r1 r2 r3 r4 r5 r6 r7 r8 r9 r10 r11 r12 r13 by simp
qed

text \<open>
  The claim C5 as stated fails on the suffix: 5000 years (157784760000 seconds) lie below
  10000 years and are shown with \<open>K years\<close>.
\<close>

theorem formatTime_K_suffix_counterexample:
  "(157784760000 :: real) / 31556952 = 5000 \<and> (157784760000 :: real) / 31556952 < 10000 \<and>
   formatTime (Finite 157784760000) = ''5K years''"
  by code_simp

section \<open>Properties of the crack-time estimator\<close>

lemma adjustmentFactorOf_positive: "0 < adjustmentFactorOf pwd"
proof -
  have "(5 / 100 :: real) \<le> adjustmentFactorOf pwd"
    unfolding adjustmentFactorOf_def Let_def by (rule max.cobounded1)
  then show ?thesis by linarith
qed

lemma slower_guessing_takes_longer:
  fixes combinations a r1 r2 :: real
  assumes "0 \<le> combinations" "0 < a" "0 < r1" "r1 \<le> r2"
  shows "combinations / r2 * a \<le> combinations / r1 * a"
proof -
  have "combinations / r2 \<le> combinations / r1"
    using assms by (simp add: frac_le)
  moreover have "0 \<le> a" using assms(2) by simp
  ultimately show ?thesis by (rule mult_right_mono)
qed

text \<open>
  Claim C9 (order of the three estimates). For every entropy, common flag, score and
  password the online estimate is at least the offline estimate, which is at least the
  optimized one: on the common-password path the three constants are ordered, and on the
  general path one combination count and one adjustment factor are divided by growing
  guess rates.
\<close>

theorem calculateTimeToCrack_ordered:
  "optimized (calculateTimeToCrack e isCommon s pwd) \<le>
     offline (calculateTimeToCrack e isCommon s pwd) \<and>
   offline (calculateTimeToCrack e isCommon s pwd) \<le>
     online (calculateTimeToCrack e isCommon s pwd)"
proof (cases isCommon)
  case True
  then show ?thesis by (simp add: calculateTimeToCrack_def)
next
  case False
  define c where
    "c = 2 powr min (e * (7 / 10 + (3 / 10) * (s / 100)) * (if length pwd \<le> 20 then 1 else 8 / 10)) 100"
  have c0: "0 \<le> c" by (simp add: c_def)
  have a0: "0 < adjustmentFactorOf pwd" by (rule adjustmentFactorOf_positive)
  have t: "calculateTimeToCrack e isCommon s pwd =
      \<lparr>online = c / guessesOnline * adjustmentFactorOf pwd,
       offline = c / guessesOffline * adjustmentFactorOf pwd,
       optimized = c / guessesOptimized * adjustmentFactorOf pwd\<rparr>"
    using False by (simp add: calculateTimeToCrack_def Let_def c_def)
  have "c / guessesOptimized * adjustmentFactorOf pwd \<le> c / guessesOffline * adjustmentFactorOf pwd"
    by (rule slower_guessing_takes_longer [OF c0 a0])
       (simp_all add: guessesOffline_def guessesOptimized_def)
  moreover
  have "c / guessesOffline * adjustmentFactorOf pwd \<le> c / guessesOnline * adjustmentFactorOf pwd"
    by (rule slower_guessing_takes_longer [OF c0 a0])
       (simp_all add: guessesOnline_def guessesOffline_def)
  ultimately show ?thesis by (simp add: t)
qed

section \<open>Properties of the composite scorer\<close>

lemma normalizeScore_range:
  "1 \<le> normalizeScore pwd isCommon st \<and> normalizeScore pwd isCommon st \<le> 100"
  by (auto simp add: normalizeScore_def Let_def)

lemma score_assessPasswordStrength:
  "pwd \<noteq> [] \<Longrightarrow>
   score (assessPasswordStrength pwd) =
     normalizeScore pwd (isLikelyCommonPassword pwd)
       (scoreChecks pwd (calculateEntropy pwd) (isLikelyCommonPassword pwd))"
  by (simp add: assessPasswordStrength_def Let_def)

lemma patterns_assessPasswordStrength:
  "pwd \<noteq> [] \<Longrightarrow>
   patterns (assessPasswordStrength pwd) =
     patterns (scoreChecks pwd (calculateEntropy pwd) (isLikelyCommonPassword pwd))"
  by (simp add: assessPasswordStrength_def Let_def)

text \<open>
  Claim C1 (clamp invariant), as amended. For every password but the empty one the score
  lies between 1 and 100; for the empty password the function returns at once with the
  score 0.
\<close>

theorem assessPasswordStrength_score_range:
  "(pwd \<noteq> [] \<longrightarrow>
      1 \<le> score (assessPasswordStrength pwd) \<and> score (assessPasswordStrength pwd) \<le> 100) \<and>
   score (assessPasswordStrength []) = 0"
proof (intro conjI impI)
  assume ne: "pwd \<noteq> []"
  show "1 \<le> score (assessPasswordStrength pwd)"
    using normalizeScore_range by (simp only: score_assessPasswordStrength [OF ne])
  show "score (assessPasswordStrength pwd) \<le> 100"
    using normalizeScore_range by (simp only: score_assessPasswordStrength [OF ne])
next
  show "score (assessPasswordStrength []) = 0"
    by (simp add: assessPasswordStrength_def)
qed

theorem assessPasswordStrength_score_range_witness:
  "''Tr0ub4dor&3'' \<noteq> [] \<and>
   1 \<le> score (assessPasswordStrength ''Tr0ub4dor&3'') \<and>
   score (assessPasswordStrength ''Tr0ub4dor&3'') \<le> 100 \<and>
   score (assessPasswordStrength []) = 0"
  using assessPasswordStrength_score_range [of "''Tr0ub4dor&3''"] by simp

text \<open>The claim C1 as stated fails at the empty password, whose score is below 1.\<close>

theorem assessPasswordStrength_empty_counterexample:
  "score (assessPasswordStrength []) = 0 \<and> score (assessPasswordStrength []) < 1"
  by (simp add: assessPasswordStrength_def)

subsection \<open>The score of a password without patterns\<close>

lemma diversityStep_effect:
  "patterns (diversityStep pwd st) = patterns st"
  "score (diversityStep pwd st) = score st + diversityPoints (characterTypes pwd)"
  by (simp_all add: diversityStep_def)

lemma symbolStep_effect:
  assumes "patterns (symbolStep pwd st) = []"
  shows "patterns st = []" "score (symbolStep pwd st) = score st - lowSymbolPenalty pwd"
  using assms
  by (auto simp: symbolStep_def lowSymbolPenalty_def Let_def split: if_splits)

lemma lengthStep_effect:
  "patterns (lengthStep pwd st) = patterns st"
  "score (lengthStep pwd st) = score st + lengthPoints (length pwd)"
  by (simp_all add: lengthStep_def lengthPoints_def)

lemma entropyStep_effect:
  "patterns (entropyStep e st) = patterns st"
  "score (entropyStep e st) = score st + entropyPoints e"
  by (simp_all add: entropyStep_def)

lemma commonStep_effect:
  assumes "patterns (commonStep isCommon st) = []"
  shows "patterns st = []" "score (commonStep isCommon st) = score st" "\<not> isCommon"
  using assms by (auto simp: commonStep_def split: if_splits)

lemma keyboardLoop_effect:
  "patterns (foldl (keyboardCheck pwd) st entries) = [] \<Longrightarrow>
   patterns st = [] \<and> score (foldl (keyboardCheck pwd) st entries) = score st"
proof (induction entries arbitrary: st)
  case Nil
  then show ?case by simp
next
  case (Cons entry entries)
  from Cons.prems have "patterns (foldl (keyboardCheck pwd) (keyboardCheck pwd st entry) entries) = []"
    by simp
  from Cons.IH [OF this]
  have a: "patterns (keyboardCheck pwd st entry) = []"
    and b: "score (foldl (keyboardCheck pwd) (keyboardCheck pwd st entry) entries) =
            score (keyboardCheck pwd st entry)"
    by simp_all
  from a have "patterns st = [] \<and> score (keyboardCheck pwd st entry) = score st"
    by (auto simp: keyboardCheck_def Let_def split: if_splits)
  with b show ?case by simp
qed

lemma keyboardStep_effect:
  assumes "patterns (keyboardStep pwd st) = []"
  shows "patterns st = []" "score (keyboardStep pwd st) = score st"
  using keyboardLoop_effect [of pwd st keyboardPatterns] assms
  by (simp_all add: keyboardStep_def)

lemma repeatingStep_effect:
  assumes "patterns (repeatingStep pwd st) = []"
  shows "patterns st = []" "score (repeatingStep pwd st) = score st"
  using assms by (auto simp: repeatingStep_def Let_def split: if_splits)

lemma sequentialStep_effect:
  assumes "patterns (sequentialStep pwd st) = []"
  shows "patterns st = []" "score (sequentialStep pwd st) = score st"
  using assms by (auto simp: sequentialStep_def Let_def split: option.splits)

lemma alternatingStep_effect:
  assumes "patterns (alternatingStep pwd st) = []"
  shows "patterns st = []" "score (alternatingStep pwd st) = score st"
  using assms by (auto simp: alternatingStep_def split: if_splits)

lemma leetStep_effect:
  assumes "patterns (leetStep pwd st) = []"
  shows "patterns st = []" "score (leetStep pwd st) = score st"
  using assms by (auto simp: leetStep_def split: if_splits)

lemma formulaStep_effect:
  assumes "patterns (formulaStep pwd st) = []"
  shows "patterns st = []" "score (formulaStep pwd st) = score st"
  using assms by (auto simp: formulaStep_def split: if_splits)

lemma uncommonWordStep_records: "patterns (uncommonWordStep pwd numberPart st) \<noteq> []"
  by (simp add: uncommonWordStep_def Let_def)

lemma wordNumberStep_effect:
  assumes "patterns (wordNumberStep pwd st) = []"
  shows "patterns st = []" "score (wordNumberStep pwd st) = score st"
  using assms uncommonWordStep_records
  by (auto simp: wordNumberStep_def Let_def
      split: if_splits option.splits commonality.splits)

lemma dateStep_effect:
  assumes "patterns (dateStep pwd st) = []"
  shows "patterns st = []" "score (dateStep pwd st) = score st"
  using assms by (auto simp: dateStep_def split: if_splits)

lemma singleTypeStep_effect:
  "patterns (singleTypeStep pwd st) = patterns st"
  "score (singleTypeStep pwd st) = score st - singleTypePenalty pwd"
  by (simp_all add: singleTypeStep_def singleTypePenalty_def)

lemma consistencyStep_effect:
  "patterns (consistencyStep pwd st) = patterns st"
  "score (consistencyStep pwd st) = score st + min 10 (real (length pwd))"
  by (simp_all add: consistencyStep_def)

lemma missingTypesStep_effect:
  "patterns (missingTypesStep pwd st) = patterns st"
  "score (missingTypesStep pwd st) = score st"
  by (simp_all add: missingTypesStep_def Let_def)


lemma scoreChecks_without_patterns:
  assumes "patterns (scoreChecks pwd e isCommon) = []"
  shows "score (scoreChecks pwd e isCommon) =
           diversityPoints (characterTypes pwd) - lowSymbolPenalty pwd +
           lengthPoints (length pwd) + entropyPoints e - singleTypePenalty pwd +
           min 10 (real (length pwd))"
proof -
  define s1 where "s1 = diversityStep pwd \<lparr>score = 0, issues = [], patterns = []\<rparr>"
  define s2 where "s2 = symbolStep pwd s1"
  define s3 where "s3 = lengthStep pwd s2"
  define s4 where "s4 = entropyStep e s3"
  define s5 where "s5 = commonStep isCommon s4"
  define s6 where "s6 = keyboardStep pwd s5"
  define s7 where "s7 = repeatingStep pwd s6"
  define s8 where "s8 = sequentialStep pwd s7"
  define s9 where "s9 = alternatingStep pwd s8"
  define s10 where "s10 = leetStep pwd s9"
  define s11 where "s11 = formulaStep pwd s10"
  define s12 where "s12 = wordNumberStep pwd s11"
  define s13 where "s13 = dateStep pwd s12"
  define s14 where "s14 = singleTypeStep pwd s13"
  define s15 where "s15 = consistencyStep pwd s14"
  have final: "scoreChecks pwd e isCommon = missingTypesStep pwd s15"
    by (simp add: scoreChecks_def s1_def s2_def s3_def s4_def s5_def s6_def s7_def s8_def
        s9_def s10_def s11_def s12_def s13_def s14_def s15_def)
  have p13: "patterns s13 = []"
    using assms
    by (simp add: final missingTypesStep_effect s15_def consistencyStep_effect s14_def
        singleTypeStep_effect)
  note e13 = dateStep_effect [OF p13 [unfolded s13_def], folded s13_def]
  note e12 = wordNumberStep_effect [OF e13(1) [unfolded s12_def], folded s12_def]
  note e11 = formulaStep_effect [OF e12(1) [unfolded s11_def], folded s11_def]
  note e10 = leetStep_effect [OF e11(1) [unfolded s10_def], folded s10_def]
  note e9 = alternatingStep_effect [OF e10(1) [unfolded s9_def], folded s9_def]
  note e8 = sequentialStep_effect [OF e9(1) [unfolded s8_def], folded s8_def]
  note e7 = repeatingStep_effect [OF e8(1) [unfolded s7_def], folded s7_def]
  note e6 = keyboardStep_effect [OF e7(1) [unfolded s6_def], folded s6_def]
  note e5 = commonStep_effect [OF e6(1) [unfolded s5_def], folded s5_def]
  have p2: "patterns s2 = []"
    using e5(1) by (simp add: s4_def entropyStep_effect s3_def lengthStep_effect)
  note e2 = symbolStep_effect [OF p2 [unfolded s2_def], folded s2_def]
  have "score s1 = diversityPoints (characterTypes pwd)"
    by (simp add: s1_def diversityStep_effect)
  moreover have "score s4 = score s2 + lengthPoints (length pwd) + entropyPoints e"
    by (simp add: s4_def entropyStep_effect s3_def lengthStep_effect)
  moreover have "score s13 = score s4"
    using e13(2) e12(2) e11(2) e10(2) e9(2) e8(2) e7(2) e6(2) e5(2) by simp
  moreover have "score (scoreChecks pwd e isCommon) =
      score s13 - singleTypePenalty pwd + min 10 (real (length pwd))"
    by (simp add: final missingTypesStep_effect s15_def consistencyStep_effect s14_def
        singleTypeStep_effect)
  ultimately show ?thesis using e2(2) by simp
qed

lemma characterTypes_le_4: "characterTypes pwd \<le> 4"
  by (simp add: characterTypes_def)

lemma diversityPoints_Suc: "n < 4 \<Longrightarrow> diversityPoints (n + 1) = diversityPoints n + 10"
  by (auto simp: diversityPoints_def)

lemma lowSymbolPenalty_range: "0 \<le> lowSymbolPenalty pwd \<and> lowSymbolPenalty pwd \<le> 2"
  by (simp add: lowSymbolPenalty_def)

lemma scoreChecks_entropyPoints:
  "entropyPoints e = entropyPoints e' \<Longrightarrow>
   scoreChecks pwd e isCommon = scoreChecks pwd e' isCommon"
  by (simp add: scoreChecks_def entropyStep_def)

lemma entropyPoints_log2:
  fixes n :: nat
  assumes "2 ^ 30 < n" "n \<le> 2 ^ 50"
  shows "entropyPoints (max 0 (log 2 (real n))) = 5"
proof -
  have pos: "0 < n" using assms(1) by (simp add: less_trans [OF _ assms(1)])
  have a: "real (30::nat) < log 2 (real n)" using assms(1) by (rule less_log2_of_power)
  have b: "log 2 (real n) \<le> real (50::nat)" using assms(2) pos by (rule log2_of_power_le)
  from a b show ?thesis by (simp add: entropyPoints_def)
qed

lemma assess_evaluation:
  assumes "pwd \<noteq> []" "isLikelyCommonPassword pwd = c"
    and "entropyPoints (calculateEntropy pwd) = entropyPoints e"
    and "scoreChecks pwd e c = st" "normalizeScore pwd c st = s"
  shows "score (assessPasswordStrength pwd) = s \<and>
         patterns (assessPasswordStrength pwd) = patterns st"
proof -
  have "scoreChecks pwd (calculateEntropy pwd) c = st"
    using scoreChecks_entropyPoints [OF assms(3)] assms(4) by simp
  then show ?thesis
    using assms(1,2,5)
    by (simp add: score_assessPasswordStrength patterns_assessPasswordStrength)
qed

lemma calculateEntropy_symbols:
  "calculateEntropy ''!#%&*(@^'' = max 0 (log 2 (real (1406408618241::nat)))"
proof -
  have f: "hasLower ''!#%&*(@^'' = False" "hasUpper ''!#%&*(@^'' = False"
    "hasNumber ''!#%&*(@^'' = False" "hasSymbol ''!#%&*(@^'' = True"
    "repeatMatches 2 ''!#%&*(@^'' = []"
    "seqFound (containsSequentialPattern ''!#%&*(@^'') = False"
    "containsKeyboardPattern ''!#%&*(@^'' = False"
    "lettersThenDigits 1 ''!#%&*(@^'' = False"
    by code_simp+
  show ?thesis
    unfolding calculateEntropy_def Let_def f by simp
qed

lemma entropyPoints_symbols: "entropyPoints (calculateEntropy ''!#%&*(@^'') = 5"
  unfolding calculateEntropy_symbols by (rule entropyPoints_log2) simp_all

lemma calculateEntropy_letters:
  "calculateEntropy ''xKrTmWqZ'' = max 0 (log 2 (real (53459728531456::nat)))"
proof -
  have f: "hasLower ''xKrTmWqZ'' = True" "hasUpper ''xKrTmWqZ'' = True"
    "hasNumber ''xKrTmWqZ'' = False" "hasSymbol ''xKrTmWqZ'' = False"
    "repeatMatches 2 ''xKrTmWqZ'' = []"
    "seqFound (containsSequentialPattern ''xKrTmWqZ'') = False"
    "containsKeyboardPattern ''xKrTmWqZ'' = False"
    "lettersThenDigits 1 ''xKrTmWqZ'' = False"
    by code_simp+
  show ?thesis
    unfolding calculateEntropy_def Let_def f by simp
qed

lemma entropyPoints_letters: "entropyPoints (calculateEntropy ''xKrTmWqZ'') = 5"
  unfolding calculateEntropy_letters by (rule entropyPoints_log2) simp_all

lemma calculateEntropy_lowerSymbols:
  "calculateEntropy ''x#r%m&q*'' = max 0 (log 2 (real (146830437604321::nat)))"
proof -
  have f: "hasLower ''x#r%m&q*'' = True" "hasUpper ''x#r%m&q*'' = False"
    "hasNumber ''x#r%m&q*'' = False" "hasSymbol ''x#r%m&q*'' = True"
    "repeatMatches 2 ''x#r%m&q*'' = []"
    "seqFound (containsSequentialPattern ''x#r%m&q*'') = False"
    "containsKeyboardPattern ''x#r%m&q*'' = False"
    "lettersThenDigits 1 ''x#r%m&q*'' = False"
    by code_simp+
  show ?thesis
    unfolding calculateEntropy_def Let_def f by simp
qed

lemma entropyPoints_lowerSymbols: "entropyPoints (calculateEntropy ''x#r%m&q*'') = 5"
  unfolding calculateEntropy_lowerSymbols by (rule entropyPoints_log2) simp_all

lemma assess_symbols:
  "score (assessPasswordStrength ''!#%&*(@^'') = 38 \<and>
   patterns (assessPasswordStrength ''!#%&*(@^'') = []"
proof -
  have ne: "''!#%&*(@^'' \<noteq> []" by simp
  have c: "isLikelyCommonPassword ''!#%&*(@^'' = False" by code_simp
  have e: "entropyPoints (calculateEntropy ''!#%&*(@^'') = entropyPoints 40"
    by (simp add: entropyPoints_symbols) (simp add: entropyPoints_def)
  have st: "scoreChecks ''!#%&*(@^'' 40 False =
      \<lparr>score = 38, issues = [''No uppercase'', ''No lowercase'', ''No numbers''], patterns = []\<rparr>"
    by code_simp
  have n: "normalizeScore ''!#%&*(@^'' False
      \<lparr>score = 38, issues = [''No uppercase'', ''No lowercase'', ''No numbers''], patterns = []\<rparr> = 38"
    by code_simp
  from assess_evaluation [OF ne c e st n] show ?thesis by simp
qed

lemma assess_letters:
  "score (assessPasswordStrength ''xKrTmWqZ'') = 28 \<and>
   patterns (assessPasswordStrength ''xKrTmWqZ'') = []"
proof -
  have ne: "''xKrTmWqZ'' \<noteq> []" by simp
  have c: "isLikelyCommonPassword ''xKrTmWqZ'' = False" by code_simp
  have e: "entropyPoints (calculateEntropy ''xKrTmWqZ'') = entropyPoints 40"
    by (simp add: entropyPoints_letters) (simp add: entropyPoints_def)
  have st: "scoreChecks ''xKrTmWqZ'' 40 False =
      \<lparr>score = 28, issues = [''Only letters'', ''No numbers'', ''No symbols''], patterns = []\<rparr>"
    by code_simp
  have n: "normalizeScore ''xKrTmWqZ'' False
      \<lparr>score = 28, issues = [''Only letters'', ''No numbers'', ''No symbols''], patterns = []\<rparr> = 28"
    by code_simp
  from assess_evaluation [OF ne c e st n] show ?thesis by simp
qed

lemma assess_lowerSymbols:
  "score (assessPasswordStrength ''x#r%m&q*'') = 48 \<and>
   patterns (assessPasswordStrength ''x#r%m&q*'') = []"
proof -
  have ne: "''x#r%m&q*'' \<noteq> []" by simp
  have c: "isLikelyCommonPassword ''x#r%m&q*'' = False" by code_simp
  have e: "entropyPoints (calculateEntropy ''x#r%m&q*'') = entropyPoints 40"
    by (simp add: entropyPoints_lowerSymbols) (simp add: entropyPoints_def)
  have st: "scoreChecks ''x#r%m&q*'' 40 False =
      \<lparr>score = 48, issues = [''No uppercase'', ''No numbers''], patterns = []\<rparr>"
    by code_simp
  have n: "normalizeScore ''x#r%m&q*'' False
      \<lparr>score = 48, issues = [''No uppercase'', ''No numbers''], patterns = []\<rparr> = 48"
    by code_simp
  from assess_evaluation [OF ne c e st n] show ?thesis by simp
qed

lemma calculateEntropy_keyboardExample:
  "calculateEntropy ''Zq#qwerty7Lm!vB2'' =
     max 0 (log 2 (real (44012666865176569775543212890625::nat)) * (8 / 10))"
proof -
  have f: "hasLower ''Zq#qwerty7Lm!vB2'' = True" "hasUpper ''Zq#qwerty7Lm!vB2'' = True"
    "hasNumber ''Zq#qwerty7Lm!vB2'' = True" "hasSymbol ''Zq#qwerty7Lm!vB2'' = True"
    "repeatMatches 2 ''Zq#qwerty7Lm!vB2'' = []"
    "seqFound (containsSequentialPattern ''Zq#qwerty7Lm!vB2'') = False"
    "containsKeyboardPattern ''Zq#qwerty7Lm!vB2'' = True"
    "lettersThenDigits 1 ''Zq#qwerty7Lm!vB2'' = False"
    by code_simp+
  show ?thesis
    unfolding calculateEntropy_def Let_def f by simp
qed

lemma entropyPoints_keyboardExample:
  "entropyPoints (calculateEntropy ''Zq#qwerty7Lm!vB2'') = 15"
proof -
  define n :: nat where "n = 44012666865176569775543212890625"
  have lo: "2 ^ 88 < n" and hi: "n \<le> 2 ^ 112" and pos: "0 < n"
    by (simp_all add: n_def)
  have a: "real (88::nat) < log 2 (real n)" using lo by (rule less_log2_of_power)
  have b: "log 2 (real n) \<le> real (112::nat)" using hi pos by (rule log2_of_power_le)
  have "70 < log 2 (real n) * (8 / 10)" "log 2 (real n) * (8 / 10) \<le> 90"
    using a b by simp_all
  then have "entropyPoints (max 0 (log 2 (real n) * (8 / 10))) = 15"
    by (simp add: entropyPoints_def)
  then show ?thesis
    unfolding calculateEntropy_keyboardExample n_def .
qed

lemma assess_keyboardExample:
  "score (assessPasswordStrength ''Zq#qwerty7Lm!vB2'') = 80 \<and>
   patterns (assessPasswordStrength ''Zq#qwerty7Lm!vB2'') =
     [''Keyboard pattern: qwerty'', ''Keyboard pattern: qwer'']"
proof -
  have ne: "''Zq#qwerty7Lm!vB2'' \<noteq> []" by simp
  have c: "isLikelyCommonPassword ''Zq#qwerty7Lm!vB2'' = False" by code_simp
  have e: "entropyPoints (calculateEntropy ''Zq#qwerty7Lm!vB2'') = entropyPoints 80"
    by (simp add: entropyPoints_keyboardExample) (simp add: entropyPoints_def)
  have st: "scoreChecks ''Zq#qwerty7Lm!vB2'' 80 False =
      \<lparr>score = 80, issues = [],
       patterns = [''Keyboard pattern: qwerty'', ''Keyboard pattern: qwer'']\<rparr>"
    by code_simp
  have n: "normalizeScore ''Zq#qwerty7Lm!vB2'' False
      \<lparr>score = 80, issues = [],
       patterns = [''Keyboard pattern: qwerty'', ''Keyboard pattern: qwer'']\<rparr> = 80"
    by code_simp
  from assess_evaluation [OF ne c e st n] show ?thesis by simp
qed

text \<open>
  Claim C7 (monotonic diversity). Take two passwords of the same length, both assessed
  without a detected pattern, the second with one character class more than the first,
  all else equal. Besides the diversity points, three adjustments depend on the classes in
  use: the entropy bonus, the single-type penalty (20 for letters only, 30 for digits only)
  and the 2 points for few symbols in a very long password. With the first two equal, or
  better for the second password, its score is not smaller; the third is covered by the 10
  points of the extra class.
\<close>

theorem diversity_monotone_other_adjustments_equal:
  assumes "p \<noteq> []" "q \<noteq> []" "length p = length q"
    and "patterns (assessPasswordStrength p) = []"
    and "patterns (assessPasswordStrength q) = []"
    and "characterTypes q = characterTypes p + 1"
    and "entropyPoints (calculateEntropy p) \<le> entropyPoints (calculateEntropy q)"
    and "singleTypePenalty q \<le> singleTypePenalty p"
  shows "score (assessPasswordStrength p) \<le> score (assessPasswordStrength q)"
proof -
  define cp where "cp = isLikelyCommonPassword p"
  define cq where "cq = isLikelyCommonPassword q"
  define sp where "sp = scoreChecks p (calculateEntropy p) cp"
  define sq where "sq = scoreChecks q (calculateEntropy q) cq"
  have pp: "patterns sp = []" and pq: "patterns sq = []"
    using assms(1,2,4,5) by (simp_all add: patterns_assessPasswordStrength sp_def sq_def cp_def cq_def)
  note fp = scoreChecks_without_patterns [OF pp [unfolded sp_def], folded sp_def]
  note fq = scoreChecks_without_patterns [OF pq [unfolded sq_def], folded sq_def]
  have kp: "characterTypes p < 4"
    using assms(6) characterTypes_le_4 [of q] by simp
  have "diversityPoints (characterTypes q) = diversityPoints (characterTypes p) + 10"
    using diversityPoints_Suc [OF kp] assms(6) by simp
  then have raw: "score sp \<le> score sq"
    using fp fq assms(3,7,8) lowSymbolPenalty_range [of p] lowSymbolPenalty_range [of q]
    by simp
  have "score (assessPasswordStrength p) = max 1 (min 100 (score sp))"
    using assms(1) kp
    by (simp add: score_assessPasswordStrength normalizeScore_def Let_def sp_def cp_def)
  also have "\<dots> \<le> max 1 (min 100 (score sq))"
    using raw by auto
  also have "\<dots> \<le> normalizeScore q cq sq"
    by (auto simp: normalizeScore_def Let_def)
  also have "\<dots> = score (assessPasswordStrength q)"
    using assms(2) by (simp add: score_assessPasswordStrength sq_def cq_def)
  finally show ?thesis .
qed


theorem diversity_monotone_witness:
  "''!#%&*(@^'' \<noteq> [] \<and> ''x#r%m&q*'' \<noteq> [] \<and>
   length ''!#%&*(@^'' = length ''x#r%m&q*'' \<and>
   patterns (assessPasswordStrength ''!#%&*(@^'') = [] \<and>
   patterns (assessPasswordStrength ''x#r%m&q*'') = [] \<and>
   characterTypes ''x#r%m&q*'' = characterTypes ''!#%&*(@^'' + 1 \<and>
   entropyPoints (calculateEntropy ''!#%&*(@^'') \<le>
     entropyPoints (calculateEntropy ''x#r%m&q*'') \<and>
   singleTypePenalty ''x#r%m&q*'' \<le> singleTypePenalty ''!#%&*(@^'' \<and>
   score (assessPasswordStrength ''!#%&*(@^'') \<le> score (assessPasswordStrength ''x#r%m&q*'')"
proof -
  have h1: "''!#%&*(@^'' \<noteq> []" and h2: "''x#r%m&q*'' \<noteq> []"
    and h3: "length ''!#%&*(@^'' = length ''x#r%m&q*''"
    by simp_all
  have h4: "patterns (assessPasswordStrength ''!#%&*(@^'') = []"
    using assess_symbols by simp
  have h5: "patterns (assessPasswordStrength ''x#r%m&q*'') = []"
    using assess_lowerSymbols by simp
  have h6: "characterTypes ''x#r%m&q*'' = characterTypes ''!#%&*(@^'' + 1"
    by code_simp
  have h7: "entropyPoints (calculateEntropy ''!#%&*(@^'') \<le>
      entropyPoints (calculateEntropy ''x#r%m&q*'')"
    by (simp add: entropyPoints_symbols entropyPoints_lowerSymbols)
  have h8: "singleTypePenalty ''x#r%m&q*'' \<le> singleTypePenalty ''!#%&*(@^''"
    by code_simp
  from diversity_monotone_other_adjustments_equal [OF h1 h2 h3 h4 h5 h6 h7 h8]
    h1 h2 h3 h4 h5 h6 h7 h8
  show ?thesis by simp
qed

text \<open>
  The single-type penalty is part of what has to be equal. The check for a single
  character type takes 20 points from a password of letters only, also when it mixes upper
  and lower case and so counts two classes, and it records an issue, not a pattern: eight
  symbols (one class, no penalty) score 38, eight letters of mixed case (two classes,
  penalty 20) score 28.
\<close>

lemma single_type_penalty_outweighs_one_class:
  "length ''!#%&*(@^'' = length ''xKrTmWqZ'' \<and>
   patterns (assessPasswordStrength ''!#%&*(@^'') = [] \<and>
   patterns (assessPasswordStrength ''xKrTmWqZ'') = [] \<and>
   characterTypes ''!#%&*(@^'' = 1 \<and> characterTypes ''xKrTmWqZ'' = 2 \<and>
   score (assessPasswordStrength ''!#%&*(@^'') = 38 \<and>
   score (assessPasswordStrength ''xKrTmWqZ'') = 28 \<and>
   singleTypePenalty ''!#%&*(@^'' = 0 \<and> singleTypePenalty ''xKrTmWqZ'' = 20 \<and>
   score (assessPasswordStrength ''xKrTmWqZ'') < score (assessPasswordStrength ''!#%&*(@^'')"
proof -
  have "characterTypes ''!#%&*(@^'' = 1" "characterTypes ''xKrTmWqZ'' = 2"
    "singleTypePenalty ''!#%&*(@^'' = 0" "singleTypePenalty ''xKrTmWqZ'' = 20"
    by code_simp+
  then show ?thesis using assess_symbols assess_letters by simp
qed

text \<open>
  Claim C3 (keyboard patterns, longest match wins). The claim asks for one keyboard penalty,
  for the longest matching entry. The loop over the keyboard table subtracts a penalty and
  records a pattern for every matching entry. In \<open>qwerty\<close> the entries \<open>qwerty\<close> and
  \<open>qwer\<close> both match, so 25 and 17 points go, 42 in all, where the longest entry alone
  costs 25. In the sixteen characters \<open>Zq#qwerty7Lm!vB2\<close> the same two entries cost 9 and 6
  points, and the assessment ends at 80 with two keyboard patterns, where one penalty for
  the longest entry would end at 86.
\<close>

theorem keyboardStep_penalises_every_match:
  "keyboardStep ''qwerty'' \<lparr>score = 0, issues = [], patterns = []\<rparr> =
     \<lparr>score = - 42, issues = [],
      patterns = [''Keyboard pattern: qwerty'', ''Keyboard pattern: qwer'']\<rparr> \<and>
   keyboardCheck ''qwerty'' \<lparr>score = 0, issues = [], patterns = []\<rparr> ''qwerty'' =
     \<lparr>score = - 25, issues = [], patterns = [''Keyboard pattern: qwerty'']\<rparr> \<and>
   keyboardStep ''Zq#qwerty7Lm!vB2'' \<lparr>score = 0, issues = [], patterns = []\<rparr> =
     \<lparr>score = - 15, issues = [],
      patterns = [''Keyboard pattern: qwerty'', ''Keyboard pattern: qwer'']\<rparr> \<and>
   keyboardCheck ''Zq#qwerty7Lm!vB2'' \<lparr>score = 0, issues = [], patterns = []\<rparr> ''qwerty'' =
     \<lparr>score = - 9, issues = [], patterns = [''Keyboard pattern: qwerty'']\<rparr> \<and>
   score (assessPasswordStrength ''Zq#qwerty7Lm!vB2'') = 80 \<and>
   patterns (assessPasswordStrength ''Zq#qwerty7Lm!vB2'') =
     [''Keyboard pattern: qwerty'', ''Keyboard pattern: qwer'']"
proof -
  have "keyboardStep ''qwerty'' \<lparr>score = 0, issues = [], patterns = []\<rparr> =
      \<lparr>score = - 42, issues = [],
       patterns = [''Keyboard pattern: qwerty'', ''Keyboard pattern: qwer'']\<rparr>"
    by code_simp
  moreover
  have "keyboardCheck ''qwerty'' \<lparr>score = 0, issues = [], patterns = []\<rparr> ''qwerty'' =
      \<lparr>score = - 25, issues = [], patterns = [''Keyboard pattern: qwerty'']\<rparr>"
    by code_simp
  moreover
  have "keyboardStep ''Zq#qwerty7Lm!vB2'' \<lparr>score = 0, issues = [], patterns = []\<rparr> =
      \<lparr>score = - 15, issues = [],
       patterns = [''Keyboard pattern: qwerty'', ''Keyboard pattern: qwer'']\<rparr>"
    by code_simp
  moreover
  have "keyboardCheck ''Zq#qwerty7Lm!vB2'' \<lparr>score = 0, issues = [], patterns = []\<rparr>
      ''qwerty'' = \<lparr>score = - 9, issues = [], patterns = [''Keyboard pattern: qwerty'']\<rparr>"
    by code_simp
  ultimately show ?thesis using assess_keyboardExample by simp
qed


end
